theory Spec2Isabelle
  imports Main
begin

section \<open>Raw documents and validated values\<close>

text \<open>
  The module \<^verbatim>\<open>fastmq/asyncapi/models.py\<close> consists of class declarations only: every
  class derives from pydantic's \<^verbatim>\<open>BaseModel\<close>, and what the classes do is what
  \<^verbatim>\<open>BaseModel\<close> does with the declared fields. The embedding therefore has two layers: the
  declarations of the module, written as field tables that can be compared with the source
  line by line, and what \<^verbatim>\<open>BaseModel\<close> does with such tables, written once as functions
  over them: the creation of a class, the validation of a raw document
  (\<^verbatim>\<open>validate_model\<close>, \<^verbatim>\<open>ModelField.validate\<close> and the scalar validators) and the assignment
  to an attribute. The module is written in the idiom of pydantic 1.x (it uses
  \<^verbatim>\<open>__get_validators__\<close> and \<^verbatim>\<open>Optional\<close> annotations without a default); where pydantic 1.x
  and pydantic 2 treat the declarations of the module differently, the installed version,
  a part of the runtime environment, decides.

  A raw document is a decoded JSON value. A mapping is an association list read by first
  match; the keys of a well-formed document are distinct. Floating-point numbers are kept
  abstract: nothing is computed with them.
\<close>

typedecl pyfloat

datatype json =
    JNull
  | JBool bool
  | JInt int
  | JFloat pyfloat
  | JStr string
  | JList "json list"
  | JDict "(string \<times> json) list"

text \<open>
  A validated value is a Python object: the JSON shapes, an enumeration member (class,
  member name, value) or a model instance (class, and for every field its name, its
  external name and its value, in declaration order).
\<close>

datatype val =
    VNone
  | VBool bool
  | VInt int
  | VFloat pyfloat
  | VStr string
  | VList "val list"
  | VDict "(string \<times> val) list"
  | VEnum string string string
  | VModel string "(string \<times> string \<times> val) list"

text \<open>A field annotated \<^verbatim>\<open>Any\<close> keeps the raw object it was given.\<close>

fun raw :: "json \<Rightarrow> val" where
  "raw JNull = VNone"
| "raw (JBool b) = VBool b"
| "raw (JInt n) = VInt n"
| "raw (JFloat f) = VFloat f"
| "raw (JStr s) = VStr s"
| "raw (JList xs) = VList (map raw xs)"
| "raw (JDict kvs) = VDict (map (\<lambda>(k, v). (k, raw v)) kvs)"

section \<open>The runtime environment\<close>

text \<open>
  What the interpreter and the installed packages compute is a parameter of the model, so
  that every theorem holds whatever they return:
  \<^item> \<open>py_int\<close>, \<open>py_float\<close>: \<^verbatim>\<open>int(v)\<close> and \<^verbatim>\<open>float(v)\<close> on a string or on a number of the
    other kind, \<open>None\<close> when the call raises;
  \<^item> \<open>py_str\<close>: \<^verbatim>\<open>str(v)\<close> on an object that is not a string;
  \<^item> \<open>py_dict\<close>: \<^verbatim>\<open>dict(v)\<close> on an object that is not a mapping, \<open>None\<close> when the call
    raises (a result with a key that is not a string is outside the embedding);
  \<^item> \<open>float_is\<close>: \<^verbatim>\<open>f == n\<close> for a float and an integer;
  \<^item> \<open>any_url\<close>: \<^verbatim>\<open>AnyUrl.validate\<close> on a string, \<open>None\<close> when the URL is rejected;
  \<^item> \<open>email_validator_installed\<close>: whether \<^verbatim>\<open>import email_validator\<close> succeeds, and
    \<open>email_str\<close>: pydantic's \<^verbatim>\<open>EmailStr.validate\<close> on a string when it does;
  \<^item> \<open>pydantic\<close>: the major version of the installed pydantic.
\<close>

datatype version = Pydantic1 | Pydantic2

record builtins =
  py_int :: "json \<Rightarrow> int option"
  py_float :: "json \<Rightarrow> pyfloat option"
  py_str :: "json \<Rightarrow> string"
  py_dict :: "json \<Rightarrow> (string \<times> json) list option"
  float_is :: "pyfloat \<Rightarrow> int \<Rightarrow> bool"
  any_url :: "string \<Rightarrow> string option"
  email_validator_installed :: bool
  email_str :: "string \<Rightarrow> string option"
  pydantic :: version

text \<open>
  An environment for examples: pydantic 2 with \<^verbatim>\<open>email_validator\<close> installed, a URL check
  and an address check that return every string unchanged, and no conversion between
  numbers and strings.
\<close>

definition pydantic2_env :: builtins where
  "pydantic2_env =
     \<lparr>py_int = (\<lambda>d. None), py_float = (\<lambda>d. None), py_str = (\<lambda>d. ''''),
      py_dict = (\<lambda>d. None), float_is = (\<lambda>f n. False), any_url = (\<lambda>s. Some s),
      email_validator_installed = True, email_str = (\<lambda>s. Some s), pydantic = Pydantic2\<rparr>"

section \<open>Declarations\<close>

text \<open>
  The annotation of a field. \<open>TDictOf t\<close> is \<^verbatim>\<open>Dict[str, t]\<close>, \<open>TDictRaw\<close> is a bare
  \<^verbatim>\<open>dict\<close>, \<open>TEnum\<close> lists the members of an \<^verbatim>\<open>Enum\<close> class with their values, \<open>TModel\<close>
  carries the fields of a \<^verbatim>\<open>BaseModel\<close> class.
\<close>

datatype kwarg = KStr string | KInt int

datatype dflt = NoDefault | Ellipsis | DefaultNone

datatype ty =
    TAny
  | TStr
  | TInt
  | TFloat
  | TBool
  | TAnyUrl
  | TEmailStr
  | TDictRaw
  | TEnum string "(string \<times> string) list"
  | TOptional ty
  | TList ty
  | TDictOf ty
  | TUnion "ty list"
  | TModel string "fld list"
and fld = Fld string ty dflt "(string \<times> kwarg) list"


section \<open>Validation results\<close>

text \<open>
  pydantic collects every violation of one pass in a \<^verbatim>\<open>ValidationError\<close>: a list of
  entries, each with the path of the failing field (\<^verbatim>\<open>loc\<close>) and the kind of violation.
  The result of a validation is the list of warnings logged on the way, and either the
  entries of the error or the value. A \<^verbatim>\<open>TypeError\<close> raised by the call of a validator is
  no validation error and ends the parse; it is reported as the entry
  \<open>ValidatorTypeError\<close> at the field.
\<close>

datatype err_kind =
    Missing
  | NoneNotAllowed
  | StrError
  | IntegerError
  | FloatError
  | BoolError
  | ListError
  | DictError
  | EnumError
  | UrlError
  | EmailError
  | ValidatorTypeError
  | NumberNotGt int
  | NumberNotGe int
  | NumberNotLt int
  | NumberNotLe int

datatype loc_item = Key string | Idx nat

type_synonym verr = "loc_item list \<times> err_kind"

type_synonym 'a res = "string list \<times> (verr list + 'a)"

definition ok :: "'a \<Rightarrow> 'a res" where
  "ok v = ([], Inr v)"

definition fail :: "err_kind \<Rightarrow> 'a res" where
  "fail e = ([], Inl [([], e)])"

definition scalar :: "err_kind + 'a \<Rightarrow> 'a res" where
  "scalar r = (case r of Inl e \<Rightarrow> fail e | Inr v \<Rightarrow> ok v)"

text \<open>An error found below a field or an element is reported under the longer path.\<close>

definition at :: "loc_item \<Rightarrow> 'a res \<Rightarrow> 'a res" where
  "at l r = (case r of
      (w, Inl es) \<Rightarrow> (w, Inl (map (\<lambda>(loc, e). (l # loc, e)) es))
    | (w, Inr v) \<Rightarrow> (w, Inr v))"

definition errs_of :: "'a res \<Rightarrow> verr list" where
  "errs_of r = (case snd r of Inl es \<Rightarrow> es | Inr v \<Rightarrow> [])"

definition succeeded :: "'a res \<Rightarrow> bool" where
  "succeeded r = (case snd r of Inl es \<Rightarrow> False | Inr v \<Rightarrow> True)"

text \<open>
  The elements of a list, the values of a mapping and the fields of a model are all
  validated, in order; the errors of all of them are reported together.
\<close>

definition collect :: "'a res list \<Rightarrow> 'a list res" where
  "collect rs =
     (concat (map fst rs),
      if list_all succeeded rs then Inr (map (projr \<circ> snd) rs)
      else Inl (concat (map errs_of rs)))"

definition map_res :: "('a \<Rightarrow> 'b) \<Rightarrow> 'a res \<Rightarrow> 'b res" where
  "map_res f r = (case r of (w, Inl es) \<Rightarrow> (w, Inl es) | (w, Inr v) \<Rightarrow> (w, Inr (f v)))"

text \<open>
  The alternatives of a \<^verbatim>\<open>Union\<close> are tried in the order of the annotation; the first
  that validates gives the value, and the later ones are not run. When none validates, the
  errors of all are reported.
\<close>

fun first_ok :: "'a res list \<Rightarrow> 'a res" where
  "first_ok [] = ([], Inl [])"
| "first_ok (r # rs) =
     (case r of
        (w, Inr v) \<Rightarrow> (w, Inr v)
      | (w, Inl es) \<Rightarrow>
          (case first_ok rs of
             (w', Inr v) \<Rightarrow> (w @ w', Inr v)
           | (w', Inl es') \<Rightarrow> (w @ w', Inl (es @ es'))))"

section \<open>The validators of pydantic\<close>

definition str_validator :: "builtins \<Rightarrow> json \<Rightarrow> err_kind + val" where
  "str_validator bi d = (case d of
      JNull \<Rightarrow> Inl NoneNotAllowed
    | JStr s \<Rightarrow> Inr (VStr s)
    | JBool b \<Rightarrow> Inr (VStr (py_str bi d))
    | JInt n \<Rightarrow> Inr (VStr (py_str bi d))
    | JFloat f \<Rightarrow> Inr (VStr (py_str bi d))
    | JList xs \<Rightarrow> Inl StrError
    | JDict kvs \<Rightarrow> Inl StrError)"

definition int_validator :: "builtins \<Rightarrow> json \<Rightarrow> err_kind + val" where
  "int_validator bi d = (case d of
      JNull \<Rightarrow> Inl NoneNotAllowed
    | JInt n \<Rightarrow> Inr (VInt n)
    | JBool b \<Rightarrow> Inr (VInt (if b then 1 else 0))
    | JFloat f \<Rightarrow> (case py_int bi d of Some n \<Rightarrow> Inr (VInt n) | None \<Rightarrow> Inl IntegerError)
    | JStr s \<Rightarrow> (case py_int bi d of Some n \<Rightarrow> Inr (VInt n) | None \<Rightarrow> Inl IntegerError)
    | JList xs \<Rightarrow> Inl IntegerError
    | JDict kvs \<Rightarrow> Inl IntegerError)"

definition float_validator :: "builtins \<Rightarrow> json \<Rightarrow> err_kind + val" where
  "float_validator bi d = (case d of
      JNull \<Rightarrow> Inl NoneNotAllowed
    | JFloat f \<Rightarrow> Inr (VFloat f)
    | JList xs \<Rightarrow> Inl FloatError
    | JDict kvs \<Rightarrow> Inl FloatError
    | _ \<Rightarrow> (case py_float bi d of Some f \<Rightarrow> Inr (VFloat f) | None \<Rightarrow> Inl FloatError))"

definition py_lower :: "string \<Rightarrow> string" where
  "py_lower s =
     map (\<lambda>c. case map_of (zip ''ABCDEFGHIJKLMNOPQRSTUVWXYZ'' ''abcdefghijklmnopqrstuvwxyz'') c of
                 Some l \<Rightarrow> l | None \<Rightarrow> c) s"

definition BOOL_TRUE :: "string list" where
  "BOOL_TRUE = [''1'', ''on'', ''t'', ''true'', ''y'', ''yes'']"

definition BOOL_FALSE :: "string list" where
  "BOOL_FALSE = [''0'', ''off'', ''f'', ''false'', ''n'', ''no'']"

definition bool_validator :: "builtins \<Rightarrow> json \<Rightarrow> err_kind + val" where
  "bool_validator bi d = (case d of
      JNull \<Rightarrow> Inl NoneNotAllowed
    | JBool b \<Rightarrow> Inr (VBool b)
    | JStr s \<Rightarrow>
        (if py_lower s \<in> set BOOL_TRUE then Inr (VBool True)
         else if py_lower s \<in> set BOOL_FALSE then Inr (VBool False)
         else Inl BoolError)
    | JInt n \<Rightarrow>
        (if n = 1 then Inr (VBool True) else if n = 0 then Inr (VBool False) else Inl BoolError)
    | JFloat f \<Rightarrow>
        (if float_is bi f 1 then Inr (VBool True)
         else if float_is bi f 0 then Inr (VBool False)
         else Inl BoolError)
    | JList xs \<Rightarrow> Inl BoolError
    | JDict kvs \<Rightarrow> Inl BoolError)"

text \<open>\<^verbatim>\<open>AnyUrl\<close> runs \<^verbatim>\<open>str_validator\<close> first, then checks the URL.\<close>

definition url_validator :: "builtins \<Rightarrow> json \<Rightarrow> err_kind + val" where
  "url_validator bi d = (case str_validator bi d of
      Inr (VStr s) \<Rightarrow> (case any_url bi s of Some u \<Rightarrow> Inr (VStr u) | None \<Rightarrow> Inl UrlError)
    | Inr v \<Rightarrow> Inl StrError
    | Inl e \<Rightarrow> Inl e)"

text \<open>An \<^verbatim>\<open>Enum\<close> class is called on the raw value: the member with that value, if any.\<close>

definition enum_validator :: "string \<Rightarrow> (string \<times> string) list \<Rightarrow> json \<Rightarrow> err_kind + val" where
  "enum_validator cls members d = (case d of
      JNull \<Rightarrow> Inl NoneNotAllowed
    | JStr s \<Rightarrow> (case find (\<lambda>(m, v). v = s) members of
                  Some (m, v) \<Rightarrow> Inr (VEnum cls m v)
                | None \<Rightarrow> Inl EnumError)
    | _ \<Rightarrow> Inl EnumError)"

text \<open>\<^verbatim>\<open>dict_validator\<close>: a mapping as it is, anything else through \<^verbatim>\<open>dict(v)\<close>.\<close>

definition dict_validator :: "builtins \<Rightarrow> json \<Rightarrow> err_kind + (string \<times> json) list" where
  "dict_validator bi d = (case d of
      JNull \<Rightarrow> Inl NoneNotAllowed
    | JDict kvs \<Rightarrow> Inr kvs
    | _ \<Rightarrow> (case py_dict bi d of Some kvs \<Rightarrow> Inr kvs | None \<Rightarrow> Inl DictError))"


text \<open>
  The \<^verbatim>\<open>EmailStr\<close> of the module. With \<^verbatim>\<open>email_validator\<close> installed it is pydantic's
  class: \<^verbatim>\<open>str_validator\<close>, then the check of the address. Without it, it is the class of
  the \<^verbatim>\<open>except ImportError\<close> branch, whose only validator, \<^verbatim>\<open>validate(cls, v)\<close>, logs a
  warning and returns \<^verbatim>\<open>str(v)\<close>. pydantic 1.x calls a validator of
  \<^verbatim>\<open>__get_validators__\<close> with the value. pydantic 2 calls it with the value and an info
  object: the call of \<^verbatim>\<open>validate\<close>, which takes the value alone, raises \<^verbatim>\<open>TypeError\<close>
  before its body runs.
\<close>

definition email_warning :: string where
  "email_warning =
     ''email-validator not installed, email fields will be treated as str.'' @ [CHR 0x0A] @
     ''To install, run: pip install email-validator''"

definition EmailStr_validate :: "builtins \<Rightarrow> json \<Rightarrow> val res" where
  "EmailStr_validate bi d =
     (if d = JNull then fail NoneNotAllowed
      else if email_validator_installed bi then
        (case str_validator bi d of
           Inr (VStr s) \<Rightarrow> (case email_str bi s of Some a \<Rightarrow> ok (VStr a) | None \<Rightarrow> fail EmailError)
         | Inr v \<Rightarrow> fail StrError
         | Inl e \<Rightarrow> fail e)
      else (case pydantic bi of
              Pydantic1 \<Rightarrow>
                ([email_warning], Inr (VStr (case d of JStr s \<Rightarrow> s | _ \<Rightarrow> py_str bi d)))
            | Pydantic2 \<Rightarrow> fail ValidatorTypeError))"

section \<open>Fields\<close>

fun fld_name :: "fld \<Rightarrow> string" where
  "fld_name (Fld name t dv kw) = name"

fun fld_type :: "fld \<Rightarrow> ty" where
  "fld_type (Fld name t dv kw) = t"

text \<open>The external name of a field: the keyword \<^verbatim>\<open>alias\<close> of \<^verbatim>\<open>Field\<close>, else the name.\<close>

fun fld_alias :: "fld \<Rightarrow> string" where
  "fld_alias (Fld name t dv kw) =
     (case map_of kw ''alias'' of Some (KStr a) \<Rightarrow> a | _ \<Rightarrow> name)"

fun allows_none :: "ty \<Rightarrow> bool" where
  "allows_none TAny = True"
| "allows_none (TOptional t) = True"
| "allows_none t = False"

text \<open>
  A field is required when its default is \<^verbatim>\<open>...\<close>. A field without a default is
  required under pydantic 2; under pydantic 1.x it is required unless its annotation is
  \<^verbatim>\<open>Optional\<close> or \<^verbatim>\<open>Any\<close>.
\<close>

fun fld_required :: "builtins \<Rightarrow> fld \<Rightarrow> bool" where
  "fld_required bi (Fld name t dv kw) =
     (case dv of
        Ellipsis \<Rightarrow> True
      | DefaultNone \<Rightarrow> False
      | NoDefault \<Rightarrow> (case pydantic bi of Pydantic1 \<Rightarrow> \<not> allows_none t | Pydantic2 \<Rightarrow> True))"

text \<open>
  \<^verbatim>\<open>number_size_validator\<close>: the keywords \<^verbatim>\<open>gt\<close>, \<^verbatim>\<open>ge\<close>, \<^verbatim>\<open>lt\<close> and \<^verbatim>\<open>le\<close> of \<^verbatim>\<open>Field\<close>
  bound a number. Any other keyword is kept as extra information of the field and
  constrains nothing.
\<close>

definition kw_int :: "(string \<times> kwarg) list \<Rightarrow> string \<Rightarrow> int option" where
  "kw_int kw k = (case map_of kw k of Some (KInt b) \<Rightarrow> Some b | _ \<Rightarrow> None)"

definition number_size_validator :: "(string \<times> kwarg) list \<Rightarrow> int \<Rightarrow> err_kind option" where
  "number_size_validator kw n =
     (let gt = kw_int kw ''gt''; ge = kw_int kw ''ge''; lt = kw_int kw ''lt''; le = kw_int kw ''le''
      in if gt \<noteq> None \<and> \<not> n > the gt then Some (NumberNotGt (the gt))
         else if gt = None \<and> ge \<noteq> None \<and> \<not> n \<ge> the ge then Some (NumberNotGe (the ge))
         else if lt \<noteq> None \<and> \<not> n < the lt then Some (NumberNotLt (the lt))
         else if le \<noteq> None \<and> \<not> n \<le> the le then Some (NumberNotLe (the le))
         else None)"

definition constrain :: "(string \<times> kwarg) list \<Rightarrow> val res \<Rightarrow> val res" where
  "constrain kw r = (case r of
      (w, Inr (VInt n)) \<Rightarrow>
        (case number_size_validator kw n of Some e \<Rightarrow> (w, Inl [([], e)]) | None \<Rightarrow> r)
    | _ \<Rightarrow> r)"


fun fld_kwargs :: "fld \<Rightarrow> (string \<times> kwarg) list" where
  "fld_kwargs (Fld name t dv kw) = kw"

section \<open>Validation\<close>

lemma size_fld_type [termination_simp]:
  "f \<in> set flds \<Longrightarrow> size (fld_type f) < Suc (size_list size flds)"
proof (induction flds)
  case Nil
  then show ?case by simp
next
  case (Cons g gs)
  then show ?case by (cases f) auto
qed

text \<open>
  \<^verbatim>\<open>ModelField.validate\<close> by the shape of the annotation. \<^verbatim>\<open>None\<close> is accepted where the
  annotation allows it and is an error anywhere else, before any validator runs.

  \<^verbatim>\<open>validate_model\<close>: every declared field is looked up in the input under its external
  name. A missing field is an error when it is required and \<^verbatim>\<open>None\<close> otherwise; a field
  that is there is validated. Keys of the input that no field declares are ignored (the
  default \<^verbatim>\<open>Config.extra\<close>; no class of the module declares a \<^verbatim>\<open>Config\<close>).
\<close>

fun validate :: "builtins \<Rightarrow> ty \<Rightarrow> json \<Rightarrow> val res" where
  "validate bi TAny d = ok (raw d)"
| "validate bi TStr d = scalar (str_validator bi d)"
| "validate bi TInt d = scalar (int_validator bi d)"
| "validate bi TFloat d = scalar (float_validator bi d)"
| "validate bi TBool d = scalar (bool_validator bi d)"
| "validate bi TAnyUrl d = scalar (url_validator bi d)"
| "validate bi TEmailStr d = EmailStr_validate bi d"
| "validate bi TDictRaw d =
     (case dict_validator bi d of
        Inl e \<Rightarrow> fail e
      | Inr kvs \<Rightarrow> ok (raw (JDict kvs)))"
| "validate bi (TEnum cls members) d = scalar (enum_validator cls members d)"
| "validate bi (TOptional t) d = (if d = JNull then ok VNone else validate bi t d)"
| "validate bi (TList t) d =
     (case d of
        JNull \<Rightarrow> fail NoneNotAllowed
      | JList xs \<Rightarrow>
          map_res VList
            (collect (map (\<lambda>(i, x). at (Idx i) (validate bi t x)) (zip [0..<length xs] xs)))
      | _ \<Rightarrow> fail ListError)"
| "validate bi (TDictOf t) d =
     (case dict_validator bi d of
        Inl e \<Rightarrow> fail e
      | Inr kvs \<Rightarrow>
          map_res (\<lambda>vs. VDict (zip (map fst kvs) vs))
            (collect (map (\<lambda>(k, v). at (Key k) (validate bi t v)) kvs)))"
| "validate bi (TUnion ts) d =
     (if d = JNull then fail NoneNotAllowed else first_ok (map (\<lambda>t. validate bi t d) ts))"
| "validate bi (TModel cls flds) d =
     (case dict_validator bi d of
        Inl e \<Rightarrow> fail e
      | Inr kvs \<Rightarrow>
          map_res (\<lambda>vs. VModel cls (zip (map fld_name flds) (zip (map fld_alias flds) vs)))
            (collect (map (\<lambda>f.
               case map_of kvs (fld_alias f) of
                 None \<Rightarrow> if fld_required bi f then at (Key (fld_alias f)) (fail Missing) else ok VNone
               | Some v \<Rightarrow>
                   at (Key (fld_alias f)) (constrain (fld_kwargs f) (validate bi (fld_type f) v)))
             flds)))"

text \<open>\<^verbatim>\<open>Model.parse_obj(obj)\<close>: the raw document validated against the class.\<close>

definition parse_obj :: "builtins \<Rightarrow> ty \<Rightarrow> json \<Rightarrow> val res" where
  "parse_obj bi model obj = validate bi model obj"


text \<open>
  The two steps of \<^verbatim>\<open>validate_model\<close> by name: the validation of one field against the
  input mapping, and the instance built from the values of all fields.
\<close>

definition validate_field :: "builtins \<Rightarrow> (string \<times> json) list \<Rightarrow> fld \<Rightarrow> val res" where
  "validate_field bi kvs f =
     (case map_of kvs (fld_alias f) of
        None \<Rightarrow> if fld_required bi f then at (Key (fld_alias f)) (fail Missing) else ok VNone
      | Some v \<Rightarrow> at (Key (fld_alias f)) (constrain (fld_kwargs f) (validate bi (fld_type f) v)))"

definition construct :: "string \<Rightarrow> fld list \<Rightarrow> val list \<Rightarrow> val" where
  "construct cls flds vs = VModel cls (zip (map fld_name flds) (zip (map fld_alias flds) vs))"

text \<open>The value that a successful validation gives a field.\<close>

definition field_value :: "builtins \<Rightarrow> (string \<times> json) list \<Rightarrow> fld \<Rightarrow> val" where
  "field_value bi kvs f = projr (snd (validate_field bi kvs f))"

section \<open>The classes of the module\<close>

text \<open>
  One table per class, one entry per annotated attribute, in the order of the source.
  \<open>Fld name annotation default keywords\<close>: the default is \<open>NoDefault\<close> for a bare
  annotation, \<open>DefaultNone\<close> for \<^verbatim>\<open>= None\<close> and \<^verbatim>\<open>Field(None, ...)\<close>, \<open>Ellipsis\<close> for
  \<^verbatim>\<open>Field(..., ...)\<close>; the keywords are those of the call of \<^verbatim>\<open>Field\<close>, as written.

  The tables are the classes as the module declares them. What pydantic does with a
  declaration when the class statement runs is \<open>create_class\<close> below: pydantic 1.x refuses
  there a field that has the name of an attribute of \<^verbatim>\<open>BaseModel\<close>, which \<^verbatim>\<open>schema\<close>, the
  field of \<^verbatim>\<open>Parameter\<close>, is. Whether a field without a default is required
  (\<^verbatim>\<open>id: Optional[str]\<close> of \<^verbatim>\<open>AsyncAPI\<close>) is decided by \<open>fld_required\<close>.
\<close>

definition ExternalDocumentation :: ty where
  "ExternalDocumentation =
     TModel ''ExternalDocumentation''
     [Fld ''description'' (TOptional TStr) DefaultNone [],
      Fld ''url'' TAnyUrl NoDefault []]"

definition Contact :: ty where
  "Contact =
     TModel ''Contact''
     [Fld ''name'' (TOptional TStr) DefaultNone [],
      Fld ''url'' (TOptional TAnyUrl) DefaultNone [],
      Fld ''email'' (TOptional TEmailStr) DefaultNone []]"

definition License :: ty where
  "License =
     TModel ''License''
     [Fld ''name'' TStr NoDefault [],
      Fld ''url'' (TOptional TAnyUrl) DefaultNone []]"

definition Info :: ty where
  "Info =
     TModel ''Info''
     [Fld ''title'' TStr NoDefault [],
      Fld ''description'' (TOptional TStr) DefaultNone [],
      Fld ''termsOfService'' (TOptional TStr) DefaultNone [],
      Fld ''contact'' (TOptional Contact) DefaultNone [],
      Fld ''license'' (TOptional License) DefaultNone [],
      Fld ''version'' TStr NoDefault []]"

definition ServerVariable :: ty where
  "ServerVariable =
     TModel ''ServerVariable''
     [Fld ''enum'' (TOptional (TList TStr)) DefaultNone [],
      Fld ''default'' TStr NoDefault [],
      Fld ''description'' (TOptional TStr) DefaultNone []]"

definition ServerProtocol :: ty where
  "ServerProtocol =
     TEnum ''ServerProtocol''
     [(''amqp'', ''amqp''),
      (''amqps'', ''amqps''),
      (''http'', ''http''),
      (''https'', ''https''),
      (''jms'', ''jms''),
      (''kafka'', ''kafka''),
      (''kafka_secure'', ''kafka-secure''),
      (''mqtt'', ''mqtt''),
      (''secure_mqtt'', ''secure-mqtt''),
      (''stomp'', ''stomp''),
      (''stomps'', ''stomps''),
      (''ws'', ''ws''),
      (''wss'', ''wss'')]"

definition Server :: ty where
  "Server =
     TModel ''Server''
     [Fld ''url'' (TUnion [TAnyUrl, TStr]) NoDefault [],
      Fld ''description'' (TOptional TStr) DefaultNone [],
      Fld ''variables'' (TOptional (TDictOf ServerVariable)) DefaultNone [],
      Fld ''protocol'' ServerProtocol NoDefault [],
      Fld ''protocolVersion'' TStr NoDefault [],
      Fld ''security'' (TOptional (TDictOf (TList TStr))) DefaultNone [],
      Fld ''bindings'' (TOptional (TDictOf TDictRaw)) DefaultNone []]"

definition Reference :: ty where
  "Reference =
     TModel ''Reference''
     [Fld ''ref'' TStr Ellipsis [(''alias'', KStr ''$ref'')]]"

definition Discriminator :: ty where
  "Discriminator =
     TModel ''Discriminator''
     [Fld ''propertyName'' TStr NoDefault [],
      Fld ''mapping'' (TOptional (TDictOf TStr)) DefaultNone []]"

definition SchemaBase :: ty where
  "SchemaBase =
     TModel ''SchemaBase''
     [Fld ''ref'' (TOptional TStr) DefaultNone [(''alias'', KStr ''$ref'')],
      Fld ''title'' (TOptional TStr) DefaultNone [],
      Fld ''multipleOf'' (TOptional TFloat) DefaultNone [],
      Fld ''maximum'' (TOptional TFloat) DefaultNone [],
      Fld ''exclusiveMaximum'' (TOptional TFloat) DefaultNone [],
      Fld ''minimum'' (TOptional TFloat) DefaultNone [],
      Fld ''exclusiveMinimum'' (TOptional TFloat) DefaultNone [],
      Fld ''maxLength'' (TOptional TInt) DefaultNone [(''gte'', KInt 0)],
      Fld ''minLength'' (TOptional TInt) DefaultNone [(''gte'', KInt 0)],
      Fld ''pattern'' (TOptional TStr) DefaultNone [],
      Fld ''maxItems'' (TOptional TInt) DefaultNone [(''gte'', KInt 0)],
      Fld ''minItems'' (TOptional TInt) DefaultNone [(''gte'', KInt 0)],
      Fld ''uniqueItems'' (TOptional TBool) DefaultNone [],
      Fld ''maxProperties'' (TOptional TInt) DefaultNone [(''gte'', KInt 0)],
      Fld ''minProperties'' (TOptional TInt) DefaultNone [(''gte'', KInt 0)],
      Fld ''required'' (TOptional (TList TStr)) DefaultNone [],
      Fld ''enum'' (TOptional (TList TAny)) DefaultNone [],
      Fld ''type'' (TOptional TStr) DefaultNone [],
      Fld ''allOf'' (TOptional (TList TAny)) DefaultNone [],
      Fld ''oneOf'' (TOptional (TList TAny)) DefaultNone [],
      Fld ''anyOf'' (TOptional (TList TAny)) DefaultNone [],
      Fld ''not_'' (TOptional TAny) DefaultNone [(''alias'', KStr ''not'')],
      Fld ''items'' (TOptional TAny) DefaultNone [],
      Fld ''properties'' (TOptional (TDictOf TAny)) DefaultNone [],
      Fld ''additionalProperties'' (TOptional (TUnion [TDictOf TAny, TBool])) DefaultNone [],
      Fld ''description'' (TOptional TStr) DefaultNone [],
      Fld ''format'' (TOptional TStr) DefaultNone [],
      Fld ''default'' (TOptional TAny) DefaultNone [],
      Fld ''nullable'' (TOptional TBool) DefaultNone [],
      Fld ''discriminator'' (TOptional Discriminator) DefaultNone [],
      Fld ''readOnly'' (TOptional TBool) DefaultNone [],
      Fld ''writeOnly'' (TOptional TBool) DefaultNone [],
      Fld ''externalDocs'' (TOptional ExternalDocumentation) DefaultNone [],
      Fld ''example'' (TOptional TAny) DefaultNone [],
      Fld ''deprecated'' (TOptional TBool) DefaultNone []]"

text \<open>
  A subclass starts from the fields of its base class; an attribute it annotates again
  replaces the field of that name where it stands, and a new attribute is added at the end.
\<close>

fun fields_of :: "ty \<Rightarrow> fld list" where
  "fields_of (TModel cls flds) = flds"
| "fields_of t = []"

definition inherit :: "ty \<Rightarrow> fld list \<Rightarrow> fld list" where
  "inherit base own =
     map (\<lambda>b. case find (\<lambda>f. fld_name f = fld_name b) own of Some f \<Rightarrow> f | None \<Rightarrow> b)
       (fields_of base)
     @ filter (\<lambda>f. fld_name f \<notin> set (map fld_name (fields_of base))) own"

definition Schema :: ty where
  "Schema =
     TModel ''Schema''
     (inherit SchemaBase
     [Fld ''allOf'' (TOptional (TList SchemaBase)) DefaultNone [],
      Fld ''oneOf'' (TOptional (TList SchemaBase)) DefaultNone [],
      Fld ''anyOf'' (TOptional (TList SchemaBase)) DefaultNone [],
      Fld ''not_'' (TOptional SchemaBase) DefaultNone [(''alias'', KStr ''not'')],
      Fld ''items'' (TOptional SchemaBase) DefaultNone [],
      Fld ''properties'' (TOptional (TDictOf SchemaBase)) DefaultNone [],
      Fld ''additionalProperties'' (TOptional (TUnion [TDictOf TAny, TBool])) DefaultNone []])"

definition Parameter :: ty where
  "Parameter =
     TModel ''Parameter''
     [Fld ''location'' (TOptional TStr) DefaultNone [],
      Fld ''description'' (TOptional TStr) DefaultNone [],
      Fld ''schema'' (TOptional Schema) DefaultNone []]"

definition Tag :: ty where
  "Tag = TModel ''Tag'' []"

definition Components :: ty where
  "Components = TModel ''Components'' []"

definition CorrelationID :: ty where
  "CorrelationID =
     TModel ''CorrelationID''
     [Fld ''description'' (TOptional TStr) DefaultNone [],
      Fld ''location'' TStr NoDefault []]"

definition MessageBase :: ty where
  "MessageBase =
     TModel ''MessageBase''
     [Fld ''headers'' (TOptional (TUnion [Schema, Reference])) DefaultNone [],
      Fld ''payload'' TAny NoDefault [],
      Fld ''correlationId'' (TOptional (TUnion [CorrelationID, Reference])) DefaultNone [],
      Fld ''schemaFormat'' (TOptional TStr) DefaultNone [],
      Fld ''contentType'' (TOptional TStr) DefaultNone [],
      Fld ''name'' (TOptional TStr) DefaultNone [],
      Fld ''title'' (TOptional TStr) DefaultNone [],
      Fld ''summary'' (TOptional TStr) DefaultNone [],
      Fld ''description'' (TOptional TStr) DefaultNone [],
      Fld ''tags'' (TOptional (TList Tag)) DefaultNone [],
      Fld ''externalDocs'' (TOptional ExternalDocumentation) DefaultNone [],
      Fld ''bindings'' (TOptional (TDictOf TDictRaw)) DefaultNone [],
      Fld ''examples'' (TOptional (TDictOf TAny)) DefaultNone []]"

definition Message :: ty where
  "Message =
     TModel ''Message''
     (inherit MessageBase
     [Fld ''traits'' (TOptional (TList MessageBase)) DefaultNone []])"

definition OperationTrait :: ty where
  "OperationTrait =
     TModel ''OperationTrait''
     [Fld ''operationId'' (TOptional TStr) DefaultNone [],
      Fld ''summary'' (TOptional TStr) DefaultNone [],
      Fld ''description'' (TOptional TStr) DefaultNone [],
      Fld ''tags'' (TOptional (TList Tag)) DefaultNone [],
      Fld ''externalDocs'' (TOptional ExternalDocumentation) DefaultNone [],
      Fld ''bindings'' (TOptional (TDictOf TDictRaw)) DefaultNone []]"

definition OperationBase :: ty where
  "OperationBase =
     TModel ''OperationBase''
     [Fld ''operationId'' (TOptional TStr) DefaultNone [],
      Fld ''summary'' (TOptional TStr) DefaultNone [],
      Fld ''description'' (TOptional TStr) DefaultNone [],
      Fld ''tags'' (TOptional (TList TStr)) DefaultNone [],
      Fld ''externalDocs'' (TOptional ExternalDocumentation) DefaultNone [],
      Fld ''bindings'' (TOptional (TDictOf TDictRaw)) DefaultNone []]"

definition Operation :: ty where
  "Operation =
     TModel ''Operation''
     (inherit OperationBase
     [Fld ''traits'' (TOptional OperationBase) DefaultNone [],
      Fld ''message'' (TOptional Message) DefaultNone []])"

definition ChannelItem :: ty where
  "ChannelItem =
     TModel ''ChannelItem''
     [Fld ''ref'' (TOptional TStr) DefaultNone [(''alias'', KStr ''$ref'')],
      Fld ''description'' (TOptional TStr) DefaultNone [],
      Fld ''subscribe'' (TOptional Operation) DefaultNone [],
      Fld ''publish'' (TOptional Operation) DefaultNone [],
      Fld ''parameters'' (TOptional (TDictOf (TUnion [Parameter, Reference]))) DefaultNone [],
      Fld ''bindings'' (TOptional (TDictOf TDictRaw)) DefaultNone []]"

definition AsyncAPI :: ty where
  "AsyncAPI =
     TModel ''AsyncAPI''
     [Fld ''asyncapi'' TStr NoDefault [],
      Fld ''id'' (TOptional TStr) NoDefault [],
      Fld ''info'' Info NoDefault [],
      Fld ''servers'' (TOptional (TList Server)) DefaultNone [],
      Fld ''channels'' (TDictOf ChannelItem) NoDefault [],
      Fld ''components'' (TOptional Components) DefaultNone [],
      Fld ''tags'' (TOptional (TList Tag)) DefaultNone [],
      Fld ''externalDocs'' (TOptional ExternalDocumentation) DefaultNone []]"

section \<open>Serialization\<close>

text \<open>
  Modelled from the spec: \<^verbatim>\<open>serialize(model) -> raw\<close>. The module declares no
  serialization of its own and the caller that dumps the classes is not part of the
  sources at hand. The spec describes it as the inverse mapping, re-emitting external key
  names for aliased fields, omitting absent optional fields entirely (never emitting a
  null placeholder for them), and emitting enumeration fields as their literal string
  value. A field is absent when its value is \<^verbatim>\<open>None\<close>.
\<close>

fun serialize :: "val \<Rightarrow> json" where
  "serialize VNone = JNull"
| "serialize (VBool b) = JBool b"
| "serialize (VInt n) = JInt n"
| "serialize (VFloat f) = JFloat f"
| "serialize (VStr s) = JStr s"
| "serialize (VList xs) = JList (map serialize xs)"
| "serialize (VDict kvs) = JDict (map (\<lambda>(k, v). (k, serialize v)) kvs)"
| "serialize (VEnum cls member v) = JStr v"
| "serialize (VModel cls fvs) =
     JDict (map (\<lambda>(name, alias, v). (alias, serialize v))
              (filter (\<lambda>(name, alias, v). v \<noteq> VNone) fvs))"

text \<open>Reading an attribute of a model instance: \<^verbatim>\<open>m.name\<close>.\<close>

fun getattr :: "val \<Rightarrow> string \<Rightarrow> val option" where
  "getattr (VModel cls fvs) name = map_option snd (map_of fvs name)"
| "getattr v name = None"

text \<open>The value under a key of a raw mapping.\<close>

fun jget :: "json \<Rightarrow> string \<Rightarrow> json option" where
  "jget (JDict kvs) k = map_of kvs k"
| "jget d k = None"

text \<open>The values of the members of an \<^verbatim>\<open>Enum\<close> class.\<close>

fun enum_values :: "ty \<Rightarrow> string list" where
  "enum_values (TEnum cls members) = map snd members"
| "enum_values t = []"

text \<open>
  The document of the nesting example:
  \<^verbatim>\<open>{properties: {name: {type: "string"}, tags: {type: "array", items: {type: "string"}}}}\<close>.
\<close>

definition nested_doc :: json where
  "nested_doc =
     JDict [(''properties'',
       JDict [(''name'', JDict [(''type'', JStr ''string'')]),
              (''tags'', JDict [(''type'', JStr ''array''),
                                (''items'', JDict [(''type'', JStr ''string'')])])])]"

section \<open>The creation of the classes\<close>

text \<open>
  pydantic checks a declaration when the class statement runs. pydantic 1.x
  (\<^verbatim>\<open>validate_field_name\<close>, called from \<^verbatim>\<open>ModelMetaclass.__new__\<close>) raises \<^verbatim>\<open>NameError\<close> for
  an annotated field whose name is an attribute of a base class; the fields of a base
  class are no attributes of it, so these are the public attributes of \<^verbatim>\<open>BaseModel\<close>.
  pydantic 2 only warns about such a field and creates the class.
\<close>

datatype class_error = NameError string string

definition BaseModel_attributes :: "string list" where
  "BaseModel_attributes =
     [''Config'', ''dict'', ''json'', ''parse_obj'', ''parse_raw'', ''parse_file'', ''from_orm'',
      ''construct'', ''copy'', ''schema'', ''schema_json'', ''validate'', ''update_forward_refs'']"

fun create_class :: "builtins \<Rightarrow> ty \<Rightarrow> class_error + ty" where
  "create_class bi (TModel cls flds) =
     (case pydantic bi of
        Pydantic1 \<Rightarrow>
          (case find (\<lambda>f. fld_name f \<in> set BaseModel_attributes) flds of
             Some f \<Rightarrow> Inl (NameError cls (fld_name f))
           | None \<Rightarrow> Inr (TModel cls flds))
      | Pydantic2 \<Rightarrow> Inr (TModel cls flds))"
| "create_class bi t = Inr t"

text \<open>
  The module is a sequence of class statements, \<open>models_py\<close> in the order of the source
  (\<^verbatim>\<open>ServerProtocol\<close> is an \<^verbatim>\<open>Enum\<close>, which is created without any check). The first
  statement that raises ends the import, and no class of the module exists then.
\<close>

fun create_all :: "builtins \<Rightarrow> ty list \<Rightarrow> class_error + ty list" where
  "create_all bi [] = Inr []"
| "create_all bi (t # ts) =
     (case create_class bi t of
        Inl e \<Rightarrow> Inl e
      | Inr c \<Rightarrow> (case create_all bi ts of Inl e \<Rightarrow> Inl e | Inr cs \<Rightarrow> Inr (c # cs)))"

definition models_py :: "ty list" where
  "models_py =
     [ExternalDocumentation, Contact, License, Info, ServerVariable, ServerProtocol, Server,
      Reference, Discriminator, SchemaBase, Schema, Parameter, Tag, Components, CorrelationID,
      MessageBase, Message, OperationTrait, OperationBase, Operation, ChannelItem, AsyncAPI]"

definition import_models :: "builtins \<Rightarrow> class_error + ty list" where
  "import_models bi = create_all bi models_py"

section \<open>Assignment to an attribute\<close>

text \<open>
  \<^verbatim>\<open>BaseModel.__setattr__\<close>, the operation behind \<^verbatim>\<open>m.name = x\<close>, for an instance of a class
  of the module. No class of the module declares a \<^verbatim>\<open>Config\<close> (pydantic 1.x) or a
  \<^verbatim>\<open>model_config\<close> (pydantic 2), a private attribute or a class variable, and every class
  derives from \<^verbatim>\<open>BaseModel\<close> directly or through another class of the module: the
  configuration of every class is the default one, \<open>BaseConfig\<close>.
\<close>

record Config =
  extra_allow :: bool
  allow_mutation :: bool
  frozen :: bool

definition BaseConfig :: Config where
  "BaseConfig = \<lparr>extra_allow = False, allow_mutation = True, frozen = False\<rparr>"

definition config_of :: "ty \<Rightarrow> Config" where
  "config_of cls = BaseConfig"

text \<open>
  Some names are passed to \<^verbatim>\<open>object.__setattr__\<close> before the fields or the configuration
  are consulted: under pydantic 1.x the names of \<open>DUNDER_ATTRIBUTES\<close>, under pydantic 2
  every name that starts with an underscore (\<^verbatim>\<open>is_valid_field_name\<close>). What Python does
  with such an assignment is outside the embedding; the result is \<open>Delegated\<close>.

  Any other name: pydantic 1.x raises \<^verbatim>\<open>ValueError\<close> for a name that is no field unless
  extra attributes are allowed, then \<^verbatim>\<open>TypeError\<close> when the class forbids mutation or is
  frozen, and stores the value otherwise. pydantic 2 raises for a frozen class first, then
  \<^verbatim>\<open>AttributeError\<close> for the properties of \<^verbatim>\<open>BaseModel\<close>, which have no setter, then
  \<^verbatim>\<open>ValueError\<close> for a name that is no field unless extra attributes are allowed, and stores
  the value otherwise. The value is stored as it is: no class of the module asks for the
  validation of assignments.
\<close>

definition DUNDER_ATTRIBUTES :: "string list" where
  "DUNDER_ATTRIBUTES =
     [''__annotations__'', ''__classcell__'', ''__doc__'', ''__module__'', ''__orig_bases__'',
      ''__orig_class__'', ''__qualname__'', ''__firstlineno__'', ''__static_attributes__'',
      ''__classdictcell__'']"

definition is_valid_field_name :: "string \<Rightarrow> bool" where
  "is_valid_field_name name = (case name of [] \<Rightarrow> True | c # cs \<Rightarrow> c \<noteq> CHR ''_'')"

definition BaseModel_properties :: "string list" where
  "BaseModel_properties = [''model_extra'', ''model_fields_set'']"

datatype setattr_error = NoSuchField | Immutable | NoSetter | NotAModel

datatype setattr_result = Raises setattr_error | Stored val | Delegated

definition store :: "(string \<times> string \<times> val) list \<Rightarrow> string \<Rightarrow> val \<Rightarrow> (string \<times> string \<times> val) list" where
  "store fvs name x =
     (if name \<in> set (map fst fvs)
      then map (\<lambda>(n, a, v). if n = name then (n, a, x) else (n, a, v)) fvs
      else fvs @ [(name, name, x)])"

fun setattr :: "builtins \<Rightarrow> ty \<Rightarrow> val \<Rightarrow> string \<Rightarrow> val \<Rightarrow> setattr_result" where
  "setattr bi (TModel c flds) (VModel cls fvs) name x =
     (let cfg = config_of (TModel c flds); fields = set (map fld_name flds) in
      case pydantic bi of
        Pydantic1 \<Rightarrow>
          if name \<in> set DUNDER_ATTRIBUTES then Delegated
          else if \<not> extra_allow cfg \<and> name \<notin> fields then Raises NoSuchField
          else if \<not> allow_mutation cfg \<or> frozen cfg then Raises Immutable
          else Stored (VModel cls (store fvs name x))
      | Pydantic2 \<Rightarrow>
          if \<not> is_valid_field_name name then Delegated
          else if frozen cfg then Raises Immutable
          else if name \<in> set BaseModel_properties then Raises NoSetter
          else if name \<notin> fields \<and> \<not> extra_allow cfg then Raises NoSuchField
          else Stored (VModel cls (store fvs name x)))"
| "setattr bi t v name x = Raises NotAModel"

text \<open>
  The names of the fields of a class are names that \<^verbatim>\<open>__setattr__\<close> looks up among the
  fields.
\<close>

definition names_ok :: "ty \<Rightarrow> bool" where
  "names_ok t =
     list_all (\<lambda>n. is_valid_field_name n \<and> n \<notin> set BaseModel_properties)
       (map fld_name (fields_of t))"

section \<open>Round trips\<close>

text \<open>
  The serialized document compared with the raw one. They are the same up to the order of
  the keys of their mappings; a key of the raw mapping may be missing from the serialized
  one when its value is null; and a float of the serialized document stands for an integer
  of the raw one that it equals (\<^verbatim>\<open>f == n\<close>). The keys of a mapping are distinct.
\<close>

fun same_doc :: "builtins \<Rightarrow> json \<Rightarrow> json \<Rightarrow> bool" where
  "same_doc bi (JList xs) (JList ys) = list_all2 (same_doc bi) xs ys"
| "same_doc bi (JDict a) (JDict b) =
     (distinct (map fst a) \<and> distinct (map fst b)
      \<and> list_all (\<lambda>(k, v). case map_of b k of Some v' \<Rightarrow> same_doc bi v v' | None \<Rightarrow> False) a
      \<and> list_all (\<lambda>(k, v'). k \<in> set (map fst a) \<or> v' = JNull) b)"
| "same_doc bi (JFloat f) (JInt n) = float_is bi f n"
| "same_doc bi (JList xs) d = False"
| "same_doc bi (JDict a) d = False"
| "same_doc bi d d' = (d = d')"



text \<open>
  For the alternatives of a \<^verbatim>\<open>Union\<close>, each given as whether it validates the value and
  whether the value is exact for it: the first that validates is one the value is exact for.
\<close>

fun first_exact :: "(bool \<times> bool) list \<Rightarrow> bool" where
  "first_exact [] = False"
| "first_exact ((validates, is_exact) # rest) = (if validates then is_exact else first_exact rest)"

text \<open>The bounds that the keywords of a field put on an integer hold.\<close>

definition bounds_ok :: "(string \<times> kwarg) list \<Rightarrow> json \<Rightarrow> bool" where
  "bounds_ok kw d = (case d of JInt n \<Rightarrow> number_size_validator kw n = None | _ \<Rightarrow> True)"

text \<open>
  A raw document is exact for an annotation when validation has nothing to drop or to
  convert: every scalar has the declared type already, where an integer may stand for a
  float that \<^verbatim>\<open>float\<close> makes of it and that equals it; a URL or an email address is one
  that its check returns unchanged; a protocol is a value of the enumeration; a mapping
  read as a class holds only keys that the class declares (under their external names),
  every required field is there and every bound holds. A null may stand wherever the
  annotation allows it. At a \<^verbatim>\<open>Union\<close>, the first alternative that validates the value is
  one it is exact for. Without \<^verbatim>\<open>email_validator\<close>, a string is exact for an email address
  under pydantic 1.x only: under pydantic 2 the validator of the module cannot be called.
\<close>

fun exact :: "builtins \<Rightarrow> ty \<Rightarrow> json \<Rightarrow> bool" where
  "exact bi TAny d = True"
| "exact bi TStr d = (case d of JStr s \<Rightarrow> True | _ \<Rightarrow> False)"
| "exact bi TInt d = (case d of JInt n \<Rightarrow> True | _ \<Rightarrow> False)"
| "exact bi TFloat d =
     (case d of
        JFloat f \<Rightarrow> True
      | JInt n \<Rightarrow> (case py_float bi d of Some f \<Rightarrow> float_is bi f n | None \<Rightarrow> False)
      | _ \<Rightarrow> False)"
| "exact bi TBool d = (case d of JBool b \<Rightarrow> True | _ \<Rightarrow> False)"
| "exact bi TAnyUrl d = (case d of JStr s \<Rightarrow> any_url bi s = Some s | _ \<Rightarrow> False)"
| "exact bi TEmailStr d =
     (case d of
        JStr s \<Rightarrow> if email_validator_installed bi then email_str bi s = Some s
                  else pydantic bi = Pydantic1
      | _ \<Rightarrow> False)"
| "exact bi TDictRaw d = (case d of JDict kvs \<Rightarrow> True | _ \<Rightarrow> False)"
| "exact bi (TEnum cls members) d =
     (case d of JStr s \<Rightarrow> s \<in> set (map snd members) | _ \<Rightarrow> False)"
| "exact bi (TOptional t) d = (d = JNull \<or> exact bi t d)"
| "exact bi (TList t) d = (case d of JList xs \<Rightarrow> list_all (exact bi t) xs | _ \<Rightarrow> False)"
| "exact bi (TDictOf t) d =
     (case d of JDict kvs \<Rightarrow> list_all (\<lambda>(k, v). exact bi t v) kvs | _ \<Rightarrow> False)"
| "exact bi (TUnion ts) d =
     (d \<noteq> JNull
      \<and> first_exact (map (\<lambda>t. (succeeded (validate bi t d), exact bi t d)) ts))"
| "exact bi (TModel cls flds) d =
     (case d of
        JDict kvs \<Rightarrow>
          distinct (map fld_alias flds)
          \<and> list_all (\<lambda>(k, v). k \<in> set (map fld_alias flds)) kvs
          \<and> list_all (\<lambda>f.
               case map_of kvs (fld_alias f) of
                 None \<Rightarrow> \<not> fld_required bi f
               | Some v \<Rightarrow> exact bi (fld_type f) v \<and> bounds_ok (fld_kwargs f) v)
             flds
      | _ \<Rightarrow> False)"



text \<open>
  The document of the mandatory field enforcement:
  \<^verbatim>\<open>{asyncapi: "2.0.0", info: {title: "X", version: "1.0"}, channels: {}}\<close>.
\<close>

definition minimal_doc :: json where
  "minimal_doc =
     JDict [(''asyncapi'', JStr ''2.0.0''),
            (''info'', JDict [(''title'', JStr ''X''), (''version'', JStr ''1.0'')]),
            (''channels'', JDict [])]"

section \<open>Properties\<close>

lemmas res_defs =
  ok_def fail_def scalar_def at_def collect_def map_res_def succeeded_def errs_of_def

subsection \<open>Validation of a model, by field\<close>

lemma validate_TModel_any:
  "validate bi (TModel cls flds) d =
     (case dict_validator bi d of
        Inl e \<Rightarrow> fail e
      | Inr kvs \<Rightarrow> map_res (construct cls flds) (collect (map (validate_field bi kvs) flds)))"
proof -
  have c: "construct cls flds =
      (\<lambda>vs. VModel cls (zip (map fld_name flds) (zip (map fld_alias flds) vs)))"
    by (simp add: fun_eq_iff construct_def)
  have f: "\<And>kvs. validate_field bi kvs =
      (\<lambda>f. case map_of kvs (fld_alias f) of
         None \<Rightarrow> if fld_required bi f then at (Key (fld_alias f)) (fail Missing) else ok VNone
       | Some v \<Rightarrow> at (Key (fld_alias f)) (constrain (fld_kwargs f) (validate bi (fld_type f) v)))"
    by (simp add: fun_eq_iff validate_field_def)
  show ?thesis unfolding c f by simp
qed

declare validate.simps(14) [simp del]

lemma validate_TModel:
  "validate bi (TModel cls flds) (JDict kvs) =
     map_res (construct cls flds) (collect (map (validate_field bi kvs) flds))"
  by (simp add: validate_TModel_any dict_validator_def)

lemma collect_Inr:
  "collect rs = (w, Inr vs) \<longleftrightarrow>
     list_all succeeded rs \<and> w = concat (map fst rs) \<and> vs = map (projr \<circ> snd) rs"
  by (auto simp: collect_def)

lemma collect_Inl:
  "collect rs = (w, Inl es) \<longleftrightarrow>
     \<not> list_all succeeded rs \<and> w = concat (map fst rs) \<and> es = concat (map errs_of rs)"
  by (auto simp: collect_def)

lemma map_res_Inr: "map_res f r = (w, Inr v) \<longleftrightarrow> (\<exists>u. r = (w, Inr u) \<and> v = f u)"
  by (cases r) (auto simp: map_res_def split: sum.splits)

lemma map_res_Inl: "map_res f r = (w, Inl es) \<longleftrightarrow> r = (w, Inl es)"
  by (cases r) (auto simp: map_res_def split: sum.splits)

lemma model_ok_field:
  assumes "validate bi (TModel cls flds) (JDict kvs) = (w, Inr v)" and "f \<in> set flds"
  shows "succeeded (validate_field bi kvs f)"
  using assms by (auto simp: validate_TModel map_res_Inr collect_Inr list_all_iff)

lemma model_field_fails:
  assumes "f \<in> set flds" and "\<not> succeeded (validate_field bi kvs f)"
  shows "\<exists>w es. validate bi (TModel cls flds) (JDict kvs) = (w, Inl es)
           \<and> set (errs_of (validate_field bi kvs f)) \<subseteq> set es"
proof -
  let ?rs = "map (validate_field bi kvs) flds"
  have "\<not> list_all succeeded ?rs" using assms by (auto simp: list_all_iff)
  then have "collect ?rs = (concat (map fst ?rs), Inl (concat (map errs_of ?rs)))"
    by (simp add: collect_def)
  moreover have "set (errs_of (validate_field bi kvs f)) \<subseteq> set (concat (map errs_of ?rs))"
    using assms(1) by auto
  ultimately show ?thesis by (auto simp: validate_TModel map_res_def)
qed

lemmas model_defs =
  validate_TModel validate_field_def construct_def constrain_def number_size_validator_def
  kw_int_def dict_validator_def

subsection \<open>Reference and the alias of its field\<close>

text \<open>
  C4. A raw document that holds a string under the key \<^verbatim>\<open>$ref\<close> (the claim's
  \<^verbatim>\<open>#/components/schemas/Foo\<close> or any other) parses as a \<^verbatim>\<open>Reference\<close>, whatever else the
  document holds; the attribute \<^verbatim>\<open>ref\<close> of the result is that string; and the serialized
  result holds the string under the external key \<^verbatim>\<open>$ref\<close> and has no key \<^verbatim>\<open>ref\<close>.
\<close>

theorem Reference_alias:
  assumes "jget d ''$ref'' = Some (JStr s)"
  shows "\<exists>v. parse_obj bi Reference d = ([], Inr v)
           \<and> getattr v ''ref'' = Some (VStr s)
           \<and> jget (serialize v) ''$ref'' = Some (JStr s)
           \<and> jget (serialize v) ''ref'' = None"
proof -
  from assms obtain kvs where d: "d = JDict kvs" and kv: "map_of kvs ''$ref'' = Some (JStr s)"
    by (cases d) auto
  have "parse_obj bi Reference d = ([], Inr (VModel ''Reference'' [(''ref'', ''$ref'', VStr s)]))"
    by (simp add: parse_obj_def Reference_def d kv str_validator_def res_defs model_defs)
  then show ?thesis by simp
qed

theorem Reference_alias_witness:
  "jget (JDict [(''$ref'', JStr ''#/components/schemas/Foo''), (''ref'', JStr ''other'')]) ''$ref''
     = Some (JStr ''#/components/schemas/Foo'')
   \<and> (\<forall>bi. \<exists>v.
         parse_obj bi Reference
           (JDict [(''$ref'', JStr ''#/components/schemas/Foo''), (''ref'', JStr ''other'')])
           = ([], Inr v)
         \<and> getattr v ''ref'' = Some (VStr ''#/components/schemas/Foo'')
         \<and> jget (serialize v) ''$ref'' = Some (JStr ''#/components/schemas/Foo'')
         \<and> jget (serialize v) ''ref'' = None)"
  using Reference_alias
    [of "JDict [(''$ref'', JStr ''#/components/schemas/Foo''), (''ref'', JStr ''other'')]"
        "''#/components/schemas/Foo''"]
  by simp

subsection \<open>Tag and Components\<close>

text \<open>
  C10. \<^verbatim>\<open>Tag\<close> and \<^verbatim>\<open>Components\<close> declare no field. Every raw mapping parses as either,
  whatever keys it holds; the keys are discarded: the instance holds no field, and its
  serialization is the empty mapping.
\<close>

theorem Tag_Components_discard_extra:
  "parse_obj bi Tag (JDict kvs) = ([], Inr (VModel ''Tag'' []))
   \<and> serialize (VModel ''Tag'' []) = JDict []
   \<and> parse_obj bi Components (JDict kvs) = ([], Inr (VModel ''Components'' []))
   \<and> serialize (VModel ''Components'' []) = JDict []"
  by (simp add: parse_obj_def Tag_def Components_def res_defs model_defs)

subsection \<open>The protocol of a Server\<close>

lemma ServerProtocol_values:
  "enum_values ServerProtocol =
     [''amqp'', ''amqps'', ''http'', ''https'', ''jms'', ''kafka'', ''kafka-secure'', ''mqtt'',
      ''secure-mqtt'', ''stomp'', ''stomps'', ''ws'', ''wss'']"
  by (simp add: ServerProtocol_def)

lemma protocol_field: "Fld ''protocol'' ServerProtocol NoDefault [] \<in> set (fields_of Server)"
  by (simp add: Server_def)

lemma find_by_value:
  "find (\<lambda>(m, v). v = s) members = Some (a, b) \<Longrightarrow> b = s \<and> (a, b) \<in> set members"
  by (induction members) (auto split: if_splits)

lemma find_by_value_None:
  "find (\<lambda>(m, v). v = s) members = None \<longleftrightarrow> s \<notin> snd ` set members"
  by (induction members) (auto split: if_splits)

lemma enum_validator_ok:
  "enum_validator cls members x = Inr v \<Longrightarrow> \<exists>s. x = JStr s \<and> s \<in> set (map snd members)"
  by (cases x) (auto simp: enum_validator_def split: option.splits dest!: find_by_value intro: rev_image_eqI)

lemma enum_validator_bad:
  "s \<notin> set (map snd members) \<Longrightarrow> enum_validator cls members (JStr s) = Inl EnumError"
  using find_by_value_None[of s members] by (auto simp: enum_validator_def split: option.splits)

lemma protocol_ok:
  assumes "succeeded (validate_field bi kvs (Fld ''protocol'' ServerProtocol NoDefault []))"
  shows "\<exists>s \<in> set (enum_values ServerProtocol). map_of kvs ''protocol'' = Some (JStr s)"
proof (cases "map_of kvs ''protocol''")
  case None
  with assms show ?thesis
    by (simp add: validate_field_def ServerProtocol_def res_defs split: version.splits)
next
  case (Some x)
  obtain cls members where sp: "ServerProtocol = TEnum cls members"
    by (simp add: ServerProtocol_def)
  from assms Some obtain v where "enum_validator cls members x = Inr v"
    by (cases "enum_validator cls members x")
       (auto simp: validate_field_def sp res_defs constrain_def split: sum.splits)
  then show ?thesis using Some enum_validator_ok[of cls members x v] by (auto simp: sp)
qed


lemma protocol_bad:
  assumes "map_of kvs ''protocol'' = Some (JStr s)" and "s \<notin> set (enum_values ServerProtocol)"
  shows "validate_field bi kvs (Fld ''protocol'' ServerProtocol NoDefault [])
           = ([], Inl [([Key ''protocol''], EnumError)])"
proof -
  obtain cls members where sp: "ServerProtocol = TEnum cls members"
    by (simp add: ServerProtocol_def)
  from assms(2) have "enum_validator cls members (JStr s) = Inl EnumError"
    by (intro enum_validator_bad) (simp add: sp)
  then show ?thesis using assms(1)
    by (simp add: validate_field_def sp res_defs constrain_def)
qed

lemma Server_amqp:
  "\<exists>w v. parse_obj bi Server
       (JDict [(''url'', JStr ''amqp://broker''), (''protocol'', JStr ''amqp''),
               (''protocolVersion'', JStr ''0.9.1'')]) = (w, Inr v)
     \<and> getattr v ''protocol'' = Some (VEnum ''ServerProtocol'' ''amqp'' ''amqp'')"
  by (cases "any_url bi ''amqp://broker''")
     (simp_all add: parse_obj_def Server_def ServerProtocol_def res_defs model_defs
        str_validator_def url_validator_def enum_validator_def)

text \<open>
  C6. The values of \<^verbatim>\<open>ServerProtocol\<close> are the thirteen protocol names. A raw mapping
  parses as a \<^verbatim>\<open>Server\<close> only if it holds one of them, as a string, under \<^verbatim>\<open>protocol\<close>;
  with any other string there (\<^verbatim>\<open>carrier-pigeon\<close>), the parse fails and the error has an
  entry whose path is the field \<^verbatim>\<open>protocol\<close>. A server with protocol \<^verbatim>\<open>amqp\<close>, a url
  and a protocol version parses, and its protocol is the member \<^verbatim>\<open>amqp\<close>.
\<close>

theorem Server_protocol_closed:
  "enum_values ServerProtocol =
     [''amqp'', ''amqps'', ''http'', ''https'', ''jms'', ''kafka'', ''kafka-secure'', ''mqtt'',
      ''secure-mqtt'', ''stomp'', ''stomps'', ''ws'', ''wss'']
   \<and> (\<forall>w v. parse_obj bi Server (JDict kvs) = (w, Inr v) \<longrightarrow>
          (\<exists>s \<in> set (enum_values ServerProtocol). map_of kvs ''protocol'' = Some (JStr s)))
   \<and> (\<forall>s. map_of kvs ''protocol'' = Some (JStr s) \<and> s \<notin> set (enum_values ServerProtocol) \<longrightarrow>
          (\<exists>w es. parse_obj bi Server (JDict kvs) = (w, Inl es)
             \<and> ([Key ''protocol''], EnumError) \<in> set es))
   \<and> (\<exists>w v. parse_obj bi Server
          (JDict [(''url'', JStr ''amqp://broker''), (''protocol'', JStr ''amqp''),
                  (''protocolVersion'', JStr ''0.9.1'')]) = (w, Inr v)
        \<and> getattr v ''protocol'' = Some (VEnum ''ServerProtocol'' ''amqp'' ''amqp''))"
proof (intro conjI allI impI)
  show "enum_values ServerProtocol =
     [''amqp'', ''amqps'', ''http'', ''https'', ''jms'', ''kafka'', ''kafka-secure'', ''mqtt'',
      ''secure-mqtt'', ''stomp'', ''stomps'', ''ws'', ''wss'']"
    by (rule ServerProtocol_values)
next
  fix w v assume "parse_obj bi Server (JDict kvs) = (w, Inr v)"
  then have "validate bi (TModel ''Server'' (fields_of Server)) (JDict kvs) = (w, Inr v)"
    by (simp add: parse_obj_def Server_def)
  from model_ok_field[OF this protocol_field]
  show "\<exists>s \<in> set (enum_values ServerProtocol). map_of kvs ''protocol'' = Some (JStr s)"
    by (rule protocol_ok)
next
  fix s assume a: "map_of kvs ''protocol'' = Some (JStr s) \<and> s \<notin> set (enum_values ServerProtocol)"
  then have bad: "validate_field bi kvs (Fld ''protocol'' ServerProtocol NoDefault [])
           = ([], Inl [([Key ''protocol''], EnumError)])"
    by (intro protocol_bad) auto
  then have "\<not> succeeded (validate_field bi kvs (Fld ''protocol'' ServerProtocol NoDefault []))"
    by (simp add: succeeded_def)
  from model_field_fails[OF protocol_field this, of "''Server''"] bad
  show "\<exists>w es. parse_obj bi Server (JDict kvs) = (w, Inl es)
             \<and> ([Key ''protocol''], EnumError) \<in> set es"
    by (auto simp: parse_obj_def Server_def errs_of_def)
next
  show "\<exists>w v. parse_obj bi Server
          (JDict [(''url'', JStr ''amqp://broker''), (''protocol'', JStr ''amqp''),
                  (''protocolVersion'', JStr ''0.9.1'')]) = (w, Inr v)
        \<and> getattr v ''protocol'' = Some (VEnum ''ServerProtocol'' ''amqp'' ''amqp'')"
    by (rule Server_amqp)
qed

theorem Server_protocol_closed_witness:
  "map_of [(''url'', JStr ''amqp://broker''), (''protocol'', JStr ''carrier-pigeon''),
           (''protocolVersion'', JStr ''0.9.1'')] ''protocol'' = Some (JStr ''carrier-pigeon'')
   \<and> ''carrier-pigeon'' \<notin> set (enum_values ServerProtocol)
   \<and> (\<forall>bi. \<exists>w es. parse_obj bi Server
          (JDict [(''url'', JStr ''amqp://broker''), (''protocol'', JStr ''carrier-pigeon''),
                  (''protocolVersion'', JStr ''0.9.1'')]) = (w, Inl es)
        \<and> ([Key ''protocol''], EnumError) \<in> set es)
   \<and> (\<forall>bi. \<exists>w v. parse_obj bi Server
          (JDict [(''url'', JStr ''amqp://broker''), (''protocol'', JStr ''amqp''),
                  (''protocolVersion'', JStr ''0.9.1'')]) = (w, Inr v))
   \<and> map_of [(''url'', JStr ''amqp://broker''), (''protocol'', JStr ''amqp''),
           (''protocolVersion'', JStr ''0.9.1'')] ''protocol'' = Some (JStr ''amqp'')
   \<and> ''amqp'' \<in> set (enum_values ServerProtocol)"
proof -
  have v: "enum_values ServerProtocol =
     [''amqp'', ''amqps'', ''http'', ''https'', ''jms'', ''kafka'', ''kafka-secure'', ''mqtt'',
      ''secure-mqtt'', ''stomp'', ''stomps'', ''ws'', ''wss'']"
    using Server_protocol_closed by blast
  have p: "''carrier-pigeon'' \<notin> set (enum_values ServerProtocol)"
    unfolding v by simp
  have bad: "\<exists>w es. parse_obj bi Server
          (JDict [(''url'', JStr ''amqp://broker''), (''protocol'', JStr ''carrier-pigeon''),
                  (''protocolVersion'', JStr ''0.9.1'')]) = (w, Inl es)
        \<and> ([Key ''protocol''], EnumError) \<in> set es" for bi
    using Server_protocol_closed
      [of bi "[(''url'', JStr ''amqp://broker''), (''protocol'', JStr ''carrier-pigeon''),
               (''protocolVersion'', JStr ''0.9.1'')]"] p
    by simp
  have good: "\<exists>w v. parse_obj bi Server
          (JDict [(''url'', JStr ''amqp://broker''), (''protocol'', JStr ''amqp''),
                  (''protocolVersion'', JStr ''0.9.1'')]) = (w, Inr v)" for bi
    using Server_protocol_closed[of bi "[]"] by blast
  show ?thesis using p bad good unfolding v by simp
qed

subsection \<open>The numeric bounds of a Schema\<close>

text \<open>The fields of \<^verbatim>\<open>SchemaBase\<close>, and those of \<^verbatim>\<open>Schema\<close> after inheritance.\<close>

lemma SchemaBase_fields:
  "fields_of SchemaBase =
     [Fld ''ref'' (TOptional TStr) DefaultNone [(''alias'', KStr ''$ref'')],
      Fld ''title'' (TOptional TStr) DefaultNone [],
      Fld ''multipleOf'' (TOptional TFloat) DefaultNone [],
      Fld ''maximum'' (TOptional TFloat) DefaultNone [],
      Fld ''exclusiveMaximum'' (TOptional TFloat) DefaultNone [],
      Fld ''minimum'' (TOptional TFloat) DefaultNone [],
      Fld ''exclusiveMinimum'' (TOptional TFloat) DefaultNone [],
      Fld ''maxLength'' (TOptional TInt) DefaultNone [(''gte'', KInt 0)],
      Fld ''minLength'' (TOptional TInt) DefaultNone [(''gte'', KInt 0)],
      Fld ''pattern'' (TOptional TStr) DefaultNone [],
      Fld ''maxItems'' (TOptional TInt) DefaultNone [(''gte'', KInt 0)],
      Fld ''minItems'' (TOptional TInt) DefaultNone [(''gte'', KInt 0)],
      Fld ''uniqueItems'' (TOptional TBool) DefaultNone [],
      Fld ''maxProperties'' (TOptional TInt) DefaultNone [(''gte'', KInt 0)],
      Fld ''minProperties'' (TOptional TInt) DefaultNone [(''gte'', KInt 0)],
      Fld ''required'' (TOptional (TList TStr)) DefaultNone [],
      Fld ''enum'' (TOptional (TList TAny)) DefaultNone [],
      Fld ''type'' (TOptional TStr) DefaultNone [],
      Fld ''allOf'' (TOptional (TList TAny)) DefaultNone [],
      Fld ''oneOf'' (TOptional (TList TAny)) DefaultNone [],
      Fld ''anyOf'' (TOptional (TList TAny)) DefaultNone [],
      Fld ''not_'' (TOptional TAny) DefaultNone [(''alias'', KStr ''not'')],
      Fld ''items'' (TOptional TAny) DefaultNone [],
      Fld ''properties'' (TOptional (TDictOf TAny)) DefaultNone [],
      Fld ''additionalProperties'' (TOptional (TUnion [TDictOf TAny, TBool])) DefaultNone [],
      Fld ''description'' (TOptional TStr) DefaultNone [],
      Fld ''format'' (TOptional TStr) DefaultNone [],
      Fld ''default'' (TOptional TAny) DefaultNone [],
      Fld ''nullable'' (TOptional TBool) DefaultNone [],
      Fld ''discriminator'' (TOptional Discriminator) DefaultNone [],
      Fld ''readOnly'' (TOptional TBool) DefaultNone [],
      Fld ''writeOnly'' (TOptional TBool) DefaultNone [],
      Fld ''externalDocs'' (TOptional ExternalDocumentation) DefaultNone [],
      Fld ''example'' (TOptional TAny) DefaultNone [],
      Fld ''deprecated'' (TOptional TBool) DefaultNone []]"
  by (simp add: SchemaBase_def)

lemma Schema_fields:
  "fields_of Schema =
     [Fld ''ref'' (TOptional TStr) DefaultNone [(''alias'', KStr ''$ref'')],
      Fld ''title'' (TOptional TStr) DefaultNone [],
      Fld ''multipleOf'' (TOptional TFloat) DefaultNone [],
      Fld ''maximum'' (TOptional TFloat) DefaultNone [],
      Fld ''exclusiveMaximum'' (TOptional TFloat) DefaultNone [],
      Fld ''minimum'' (TOptional TFloat) DefaultNone [],
      Fld ''exclusiveMinimum'' (TOptional TFloat) DefaultNone [],
      Fld ''maxLength'' (TOptional TInt) DefaultNone [(''gte'', KInt 0)],
      Fld ''minLength'' (TOptional TInt) DefaultNone [(''gte'', KInt 0)],
      Fld ''pattern'' (TOptional TStr) DefaultNone [],
      Fld ''maxItems'' (TOptional TInt) DefaultNone [(''gte'', KInt 0)],
      Fld ''minItems'' (TOptional TInt) DefaultNone [(''gte'', KInt 0)],
      Fld ''uniqueItems'' (TOptional TBool) DefaultNone [],
      Fld ''maxProperties'' (TOptional TInt) DefaultNone [(''gte'', KInt 0)],
      Fld ''minProperties'' (TOptional TInt) DefaultNone [(''gte'', KInt 0)],
      Fld ''required'' (TOptional (TList TStr)) DefaultNone [],
      Fld ''enum'' (TOptional (TList TAny)) DefaultNone [],
      Fld ''type'' (TOptional TStr) DefaultNone [],
      Fld ''allOf'' (TOptional (TList SchemaBase)) DefaultNone [],
      Fld ''oneOf'' (TOptional (TList SchemaBase)) DefaultNone [],
      Fld ''anyOf'' (TOptional (TList SchemaBase)) DefaultNone [],
      Fld ''not_'' (TOptional SchemaBase) DefaultNone [(''alias'', KStr ''not'')],
      Fld ''items'' (TOptional SchemaBase) DefaultNone [],
      Fld ''properties'' (TOptional (TDictOf SchemaBase)) DefaultNone [],
      Fld ''additionalProperties'' (TOptional (TUnion [TDictOf TAny, TBool])) DefaultNone [],
      Fld ''description'' (TOptional TStr) DefaultNone [],
      Fld ''format'' (TOptional TStr) DefaultNone [],
      Fld ''default'' (TOptional TAny) DefaultNone [],
      Fld ''nullable'' (TOptional TBool) DefaultNone [],
      Fld ''discriminator'' (TOptional Discriminator) DefaultNone [],
      Fld ''readOnly'' (TOptional TBool) DefaultNone [],
      Fld ''writeOnly'' (TOptional TBool) DefaultNone [],
      Fld ''externalDocs'' (TOptional ExternalDocumentation) DefaultNone [],
      Fld ''example'' (TOptional TAny) DefaultNone [],
      Fld ''deprecated'' (TOptional TBool) DefaultNone []]"
  by (simp add: Schema_def inherit_def SchemaBase_fields)

lemma Schema_TModel: "Schema = TModel ''Schema'' (fields_of Schema)"
  by (simp add: Schema_def)

lemma Schema_maxLength:
  "\<exists>v. parse_obj bi Schema (JDict [(''maxLength'', JInt n)]) = ([], Inr v)
        \<and> getattr v ''maxLength'' = Some (VInt n)"
  apply (subst Schema_TModel)
  apply (simp add: parse_obj_def Schema_fields res_defs model_defs int_validator_def)
  done

lemma Schema_minLength:
  "\<exists>v. parse_obj bi Schema (JDict [(''minLength'', JInt n)]) = ([], Inr v)
        \<and> getattr v ''minLength'' = Some (VInt n)"
  apply (subst Schema_TModel)
  apply (simp add: parse_obj_def Schema_fields res_defs model_defs int_validator_def)
  done

lemma Schema_maxItems:
  "\<exists>v. parse_obj bi Schema (JDict [(''maxItems'', JInt n)]) = ([], Inr v)
        \<and> getattr v ''maxItems'' = Some (VInt n)"
  apply (subst Schema_TModel)
  apply (simp add: parse_obj_def Schema_fields res_defs model_defs int_validator_def)
  done

lemma Schema_minItems:
  "\<exists>v. parse_obj bi Schema (JDict [(''minItems'', JInt n)]) = ([], Inr v)
        \<and> getattr v ''minItems'' = Some (VInt n)"
  apply (subst Schema_TModel)
  apply (simp add: parse_obj_def Schema_fields res_defs model_defs int_validator_def)
  done

lemma Schema_maxProperties:
  "\<exists>v. parse_obj bi Schema (JDict [(''maxProperties'', JInt n)]) = ([], Inr v)
        \<and> getattr v ''maxProperties'' = Some (VInt n)"
  apply (subst Schema_TModel)
  apply (simp add: parse_obj_def Schema_fields res_defs model_defs int_validator_def)
  done

lemma Schema_minProperties:
  "\<exists>v. parse_obj bi Schema (JDict [(''minProperties'', JInt n)]) = ([], Inr v)
        \<and> getattr v ''minProperties'' = Some (VInt n)"
  apply (subst Schema_TModel)
  apply (simp add: parse_obj_def Schema_fields res_defs model_defs int_validator_def)
  done

lemma ge_keyword_checked:
  assumes "n < 0"
  shows "validate_field bi [(''minLength'', JInt n)]
           (Fld ''minLength'' (TOptional TInt) DefaultNone [(''ge'', KInt 0)])
         = ([], Inl [([Key ''minLength''], NumberNotGe 0)])"
  using assms by (simp add: res_defs model_defs int_validator_def)

text \<open>
  C3. The six bounds of \<^verbatim>\<open>SchemaBase\<close> are declared with the keyword \<^verbatim>\<open>gte\<close>, which is not
  one of the keywords that bound a number. A \<^verbatim>\<open>Schema\<close> whose \<^verbatim>\<open>maxLength\<close>, \<^verbatim>\<open>minLength\<close>,
  \<^verbatim>\<open>maxItems\<close>, \<^verbatim>\<open>minItems\<close>, \<^verbatim>\<open>maxProperties\<close> or \<^verbatim>\<open>minProperties\<close> is any integer, zero
  or negative alike, parses, and the attribute holds that integer.
\<close>

theorem Schema_bounds_not_checked:
  "(\<exists>v. parse_obj bi Schema (JDict [(''maxLength'', JInt n)]) = ([], Inr v)
        \<and> getattr v ''maxLength'' = Some (VInt n))
   \<and> (\<exists>v. parse_obj bi Schema (JDict [(''minLength'', JInt n)]) = ([], Inr v)
        \<and> getattr v ''minLength'' = Some (VInt n))
   \<and> (\<exists>v. parse_obj bi Schema (JDict [(''maxItems'', JInt n)]) = ([], Inr v)
        \<and> getattr v ''maxItems'' = Some (VInt n))
   \<and> (\<exists>v. parse_obj bi Schema (JDict [(''minItems'', JInt n)]) = ([], Inr v)
        \<and> getattr v ''minItems'' = Some (VInt n))
   \<and> (\<exists>v. parse_obj bi Schema (JDict [(''maxProperties'', JInt n)]) = ([], Inr v)
        \<and> getattr v ''maxProperties'' = Some (VInt n))
   \<and> (\<exists>v. parse_obj bi Schema (JDict [(''minProperties'', JInt n)]) = ([], Inr v)
        \<and> getattr v ''minProperties'' = Some (VInt n))"
  by (intro conjI Schema_maxLength Schema_minLength Schema_maxItems Schema_minItems Schema_maxProperties Schema_minProperties)

subsection \<open>The import of the module\<close>

text \<open>
  Under pydantic 2 every class of the module is created. Under pydantic 1.x the eleven
  classes before \<^verbatim>\<open>Parameter\<close> are created, \<^verbatim>\<open>Parameter\<close> is refused for its field
  \<^verbatim>\<open>schema\<close>, and the import of the module ends there.
\<close>

lemma create_class_Pydantic2: "pydantic bi = Pydantic2 \<Longrightarrow> create_class bi t = Inr t"
  by (cases t) simp_all

lemma create_all_Pydantic2: "pydantic bi = Pydantic2 \<Longrightarrow> create_all bi ts = Inr ts"
  by (induction ts) (simp_all add: create_class_Pydantic2)

lemma import_models_Pydantic2: "import_models (bi\<lparr>pydantic := Pydantic2\<rparr>) = Inr models_py"
  by (simp add: import_models_def create_all_Pydantic2)

lemma create_class_ok:
  assumes "t = TModel cls flds" and "list_all (\<lambda>f. fld_name f \<notin> set BaseModel_attributes) flds"
  shows "create_class bi t = Inr t"
proof -
  from assms(2) have "find (\<lambda>f. fld_name f \<in> set BaseModel_attributes) flds = None"
    by (simp add: find_None_iff list_all_iff)
  then show ?thesis by (simp add: assms(1) split: version.splits)
qed

lemma created_before_Parameter:
  "create_class bi ExternalDocumentation = Inr ExternalDocumentation"
  "create_class bi Contact = Inr Contact"
  "create_class bi License = Inr License"
  "create_class bi Info = Inr Info"
  "create_class bi ServerVariable = Inr ServerVariable"
  "create_class bi ServerProtocol = Inr ServerProtocol"
  "create_class bi Server = Inr Server"
  "create_class bi Reference = Inr Reference"
  "create_class bi Discriminator = Inr Discriminator"
  "create_class bi SchemaBase = Inr SchemaBase"
  "create_class bi Schema = Inr Schema"
proof -
  show "create_class bi ExternalDocumentation = Inr ExternalDocumentation"
    by (rule create_class_ok[OF ExternalDocumentation_def]) (simp add: BaseModel_attributes_def)
  show "create_class bi Contact = Inr Contact"
    by (rule create_class_ok[OF Contact_def]) (simp add: BaseModel_attributes_def)
  show "create_class bi License = Inr License"
    by (rule create_class_ok[OF License_def]) (simp add: BaseModel_attributes_def)
  show "create_class bi Info = Inr Info"
    by (rule create_class_ok[OF Info_def]) (simp add: BaseModel_attributes_def)
  show "create_class bi ServerVariable = Inr ServerVariable"
    by (rule create_class_ok[OF ServerVariable_def]) (simp add: BaseModel_attributes_def)
  show "create_class bi ServerProtocol = Inr ServerProtocol"
    by (simp add: ServerProtocol_def)
  show "create_class bi Server = Inr Server"
    by (rule create_class_ok[OF Server_def]) (simp add: BaseModel_attributes_def)
  show "create_class bi Reference = Inr Reference"
    by (rule create_class_ok[OF Reference_def]) (simp add: BaseModel_attributes_def)
  show "create_class bi Discriminator = Inr Discriminator"
    by (rule create_class_ok[OF Discriminator_def]) (simp add: BaseModel_attributes_def)
  show "create_class bi SchemaBase = Inr SchemaBase"
    by (rule create_class_ok[OF SchemaBase_def]) (simp add: BaseModel_attributes_def)
  show "create_class bi Schema = Inr Schema"
    by (rule create_class_ok[OF Schema_TModel]) (simp add: Schema_fields BaseModel_attributes_def)
qed

lemma Parameter_not_created:
  "create_class (bi\<lparr>pydantic := Pydantic1\<rparr>) Parameter = Inl (NameError ''Parameter'' ''schema'')"
  by (simp add: Parameter_def BaseModel_attributes_def)

lemma import_models_Pydantic1:
  "import_models (bi\<lparr>pydantic := Pydantic1\<rparr>) = Inl (NameError ''Parameter'' ''schema'')"
  by (simp add: import_models_def models_py_def created_before_Parameter Parameter_not_created)

lemma import_models_ok:
  assumes "import_models bi = Inr classes"
  shows "pydantic bi = Pydantic2" and "classes = models_py"
proof -
  have bi: "bi = bi\<lparr>pydantic := pydantic bi\<rparr>" by simp
  show p: "pydantic bi = Pydantic2"
  proof (cases "pydantic bi")
    case Pydantic1
    with bi have "bi = bi\<lparr>pydantic := Pydantic1\<rparr>" by simp
    then have "import_models bi = Inl (NameError ''Parameter'' ''schema'')"
      using import_models_Pydantic1[of bi] by simp
    with assms show ?thesis by simp
  qed
  with bi have "bi = bi\<lparr>pydantic := Pydantic2\<rparr>" by simp
  then have "import_models bi = Inr models_py"
    using import_models_Pydantic2[of bi] by simp
  with assms show "classes = models_py" by simp
qed

subsection \<open>The mandatory info of an AsyncAPI document\<close>

lemma info_field: "Fld ''info'' Info NoDefault [] \<in> set (fields_of AsyncAPI)"
  by (simp add: AsyncAPI_def)

lemma info_missing:
  assumes "map_of kvs ''info'' = None"
  shows "validate_field bi kvs (Fld ''info'' Info NoDefault []) = ([], Inl [([Key ''info''], Missing)])"
  using assms by (simp add: validate_field_def Info_def res_defs split: version.splits)

lemma AsyncAPI_info_missing:
  assumes "map_of kvs ''info'' = None"
  shows "\<exists>w es. parse_obj bi AsyncAPI (JDict kvs) = (w, Inl es) \<and> ([Key ''info''], Missing) \<in> set es"
proof -
  have bad: "validate_field bi kvs (Fld ''info'' Info NoDefault [])
      = ([], Inl [([Key ''info''], Missing)])"
    using assms by (rule info_missing)
  then have "\<not> succeeded (validate_field bi kvs (Fld ''info'' Info NoDefault []))"
    by (simp add: succeeded_def)
  from model_field_fails[OF info_field this, of "''AsyncAPI''"] bad
  show ?thesis by (auto simp: parse_obj_def AsyncAPI_def errs_of_def)
qed

lemma AsyncAPI_with_id_parses:
  "\<exists>v. parse_obj (bi\<lparr>pydantic := Pydantic2\<rparr>) AsyncAPI
          (JDict [(''asyncapi'', JStr ''2.0.0''), (''id'', JStr i),
                  (''info'', JDict [(''title'', JStr ''X''), (''version'', JStr ''1.0'')]),
                  (''channels'', JDict [])]) = ([], Inr v)
       \<and> serialize v =
          JDict [(''asyncapi'', JStr ''2.0.0''), (''id'', JStr i),
                 (''info'', JDict [(''title'', JStr ''X''), (''version'', JStr ''1.0'')]),
                 (''channels'', JDict [])]"
  by (simp add: parse_obj_def AsyncAPI_def Info_def res_defs model_defs str_validator_def)

lemma id_field: "Fld ''id'' (TOptional TStr) NoDefault [] \<in> set (fields_of AsyncAPI)"
  by (simp add: AsyncAPI_def)

lemma AsyncAPI_id_missing:
  assumes "map_of kvs ''id'' = None"
  shows "\<exists>w es. parse_obj (bi\<lparr>pydantic := Pydantic2\<rparr>) AsyncAPI (JDict kvs) = (w, Inl es)
           \<and> ([Key ''id''], Missing) \<in> set es"
proof -
  let ?bi = "bi\<lparr>pydantic := Pydantic2\<rparr>"
  have bad: "validate_field ?bi kvs (Fld ''id'' (TOptional TStr) NoDefault [])
      = ([], Inl [([Key ''id''], Missing)])"
    using assms by (simp add: validate_field_def res_defs)
  then have "\<not> succeeded (validate_field ?bi kvs (Fld ''id'' (TOptional TStr) NoDefault []))"
    by (simp add: succeeded_def)
  from model_field_fails[OF id_field this, of "''AsyncAPI''"] bad
  show ?thesis by (auto simp: parse_obj_def AsyncAPI_def errs_of_def)
qed

text \<open>
  C7 does not hold of the code. A document without \<^verbatim>\<open>info\<close> is rejected, as the claim says
  (\<open>AsyncAPI_info_missing\<close>). But the document of the claim, with \<^verbatim>\<open>info\<close> and an empty
  \<^verbatim>\<open>channels\<close>, is rejected too, wherever the module can be imported. Under pydantic 1.x
  the import of the module ends with \<^verbatim>\<open>NameError\<close> at the class \<^verbatim>\<open>Parameter\<close>, so there is no
  class \<^verbatim>\<open>AsyncAPI\<close> to parse with. Under pydantic 2 the module imports, and the parse fails
  with the one error that the field \<^verbatim>\<open>id\<close> is missing: \<^verbatim>\<open>id: Optional[str]\<close> is the only
  \<^verbatim>\<open>Optional\<close> field of the module declared without \<^verbatim>\<open>= None\<close>, and pydantic 2 requires a
  field that has no default.
  With an \<^verbatim>\<open>id\<close> the document parses and round-trips (\<open>AsyncAPI_with_id_parses\<close>).
\<close>

theorem AsyncAPI_minimal_document_rejected:
  "import_models (bi\<lparr>pydantic := Pydantic1\<rparr>) = Inl (NameError ''Parameter'' ''schema'')
   \<and> import_models (bi\<lparr>pydantic := Pydantic2\<rparr>) = Inr models_py
   \<and> parse_obj (bi\<lparr>pydantic := Pydantic2\<rparr>) AsyncAPI minimal_doc
       = ([], Inl [([Key ''id''], Missing)])"
proof (intro conjI)
  show "import_models (bi\<lparr>pydantic := Pydantic1\<rparr>) = Inl (NameError ''Parameter'' ''schema'')"
    by (rule import_models_Pydantic1)
  show "import_models (bi\<lparr>pydantic := Pydantic2\<rparr>) = Inr models_py"
    by (rule import_models_Pydantic2)
  show "parse_obj (bi\<lparr>pydantic := Pydantic2\<rparr>) AsyncAPI minimal_doc
       = ([], Inl [([Key ''id''], Missing)])"
    by (simp add: minimal_doc_def parse_obj_def AsyncAPI_def Info_def res_defs model_defs
        str_validator_def)
qed

subsection \<open>The email of a Contact without email-validator\<close>

text \<open>
  What the fallback class does when its validator is called with the value alone, as
  pydantic 1.x calls it: the warning is logged and the string is accepted.
\<close>

lemma fallback_under_pydantic1:
  "validate (bi\<lparr>pydantic := Pydantic1, email_validator_installed := False\<rparr>) TEmailStr (JStr s)
     = ([email_warning], Inr (VStr s))"
  by (simp add: EmailStr_validate_def)

text \<open>
  C9 does not hold of the code: without \<^verbatim>\<open>email_validator\<close>, no \<^verbatim>\<open>Contact\<close> with an email
  parses, wherever the module can be imported. Under pydantic 1.x, whose calling convention
  the fallback class is written for, the import of the module ends with \<^verbatim>\<open>NameError\<close> at
  the class \<^verbatim>\<open>Parameter\<close>. Under pydantic 2 the module imports, but the validator of the
  fallback class is called with the value and an info object, so \<^verbatim>\<open>validate(cls, v)\<close> raises
  \<^verbatim>\<open>TypeError\<close> before it logs anything: the parse of a \<^verbatim>\<open>Contact\<close> with any string as its
  email fails at the field \<^verbatim>\<open>email\<close>, and no warning is logged.
\<close>

theorem Contact_email_fallback_fails:
  "import_models (bi\<lparr>email_validator_installed := False, pydantic := Pydantic1\<rparr>)
     = Inl (NameError ''Parameter'' ''schema'')
   \<and> import_models (bi\<lparr>email_validator_installed := False, pydantic := Pydantic2\<rparr>)
     = Inr models_py
   \<and> parse_obj (bi\<lparr>email_validator_installed := False, pydantic := Pydantic2\<rparr>) Contact
       (JDict [(''email'', JStr s)])
     = ([], Inl [([Key ''email''], ValidatorTypeError)])"
proof (intro conjI)
  show "import_models (bi\<lparr>email_validator_installed := False, pydantic := Pydantic1\<rparr>)
     = Inl (NameError ''Parameter'' ''schema'')"
    by (rule import_models_Pydantic1)
  show "import_models (bi\<lparr>email_validator_installed := False, pydantic := Pydantic2\<rparr>)
     = Inr models_py"
    by (rule import_models_Pydantic2)
  show "parse_obj (bi\<lparr>email_validator_installed := False, pydantic := Pydantic2\<rparr>) Contact
       (JDict [(''email'', JStr s)])
     = ([], Inl [([Key ''email''], ValidatorTypeError)])"
    by (simp add: parse_obj_def Contact_def res_defs model_defs EmailStr_validate_def)
qed

subsection \<open>Nested schemas\<close>

lemma validate_Schema:
  "validate bi Schema (JDict kvs) =
     map_res (construct ''Schema'' (fields_of Schema))
       (collect (map (validate_field bi kvs) (fields_of Schema)))"
  by (subst Schema_TModel) (rule validate_TModel)

lemma validate_SchemaBase:
  "validate bi SchemaBase (JDict kvs) =
     map_res (construct ''SchemaBase'' (fields_of SchemaBase))
       (collect (map (validate_field bi kvs) (fields_of SchemaBase)))"
proof -
  have "SchemaBase = TModel ''SchemaBase'' (fields_of SchemaBase)"
    by (simp add: SchemaBase_def)
  then show ?thesis using validate_TModel by metis
qed

lemma nested_name:
  "\<exists>fvs. validate bi SchemaBase (JDict [(''type'', JStr ''string'')])
           = ([], Inr (VModel ''SchemaBase'' fvs))
         \<and> map_of fvs ''type'' = Some (''type'', VStr ''string'')"
  by (simp add: validate_SchemaBase SchemaBase_fields res_defs validate_field_def
      construct_def constrain_def str_validator_def)

lemma nested_tags:
  "\<exists>fvs. validate bi SchemaBase
           (JDict [(''type'', JStr ''array''), (''items'', JDict [(''type'', JStr ''string'')])])
           = ([], Inr (VModel ''SchemaBase'' fvs))
         \<and> map_of fvs ''type'' = Some (''type'', VStr ''array'')
         \<and> map_of fvs ''items'' = Some (''items'', VDict [(''type'', VStr ''string'')])"
  by (simp add: validate_SchemaBase SchemaBase_fields res_defs validate_field_def
      construct_def constrain_def str_validator_def)


lemma nested_parse:
  "\<exists>v nm tags.
     parse_obj bi Schema nested_doc = ([], Inr v)
     \<and> getattr v ''properties'' = Some (VDict [(''name'', nm), (''tags'', tags)])
     \<and> getattr nm ''type'' = Some (VStr ''string'')
     \<and> getattr tags ''type'' = Some (VStr ''array'')
     \<and> getattr tags ''items'' = Some (VDict [(''type'', VStr ''string'')])"
proof -
  obtain f1 where n: "validate bi SchemaBase (JDict [(''type'', JStr ''string'')])
           = ([], Inr (VModel ''SchemaBase'' f1))"
      and n1: "map_of f1 ''type'' = Some (''type'', VStr ''string'')"
    using nested_name by blast
  obtain f2 where t: "validate bi SchemaBase
           (JDict [(''type'', JStr ''array''), (''items'', JDict [(''type'', JStr ''string'')])])
           = ([], Inr (VModel ''SchemaBase'' f2))"
      and t1: "map_of f2 ''type'' = Some (''type'', VStr ''array'')"
      and t2: "map_of f2 ''items'' = Some (''items'', VDict [(''type'', VStr ''string'')])"
    using nested_tags by blast
  show ?thesis
    by (simp add: parse_obj_def nested_doc_def validate_Schema Schema_fields validate_field_def
        construct_def res_defs constrain_def dict_validator_def n t n1 t1 t2)
qed

text \<open>
  C2, as amended. The document of the claim parses as a \<^verbatim>\<open>Schema\<close>. The values of
  \<^verbatim>\<open>properties\<close> are \<^verbatim>\<open>SchemaBase\<close> instances: the \<^verbatim>\<open>type\<close> of \<^verbatim>\<open>name\<close> is \<^verbatim>\<open>string\<close> and
  the \<^verbatim>\<open>type\<close> of \<^verbatim>\<open>tags\<close> is \<^verbatim>\<open>array\<close>. One level further down, the \<^verbatim>\<open>items\<close> of \<^verbatim>\<open>tags\<close>
  is the raw mapping \<^verbatim>\<open>{"type": "string"}\<close> as it was given: the string is under its key
  \<^verbatim>\<open>type\<close>, and the mapping is no instance of a class.
\<close>

theorem Schema_nesting_one_level:
  "\<exists>v nm tags items.
     parse_obj bi Schema nested_doc = ([], Inr v)
     \<and> getattr v ''properties'' = Some (VDict [(''name'', nm), (''tags'', tags)])
     \<and> getattr nm ''type'' = Some (VStr ''string'')
     \<and> getattr tags ''type'' = Some (VStr ''array'')
     \<and> getattr tags ''items'' = Some (VDict items)
     \<and> map_of items ''type'' = Some (VStr ''string'')"
  using nested_parse[of bi] by auto

text \<open>
  C2, as stated, fails: the \<^verbatim>\<open>items\<close> of \<^verbatim>\<open>tags\<close> has no attribute \<^verbatim>\<open>type\<close>.
\<close>

theorem Schema_nesting_counterexample:
  "\<forall>bi. \<exists>v props tags items.
     parse_obj bi Schema nested_doc = ([], Inr v)
     \<and> getattr v ''properties'' = Some (VDict props)
     \<and> map_of props ''tags'' = Some tags
     \<and> getattr tags ''items'' = Some items
     \<and> getattr items ''type'' = None"
proof
  fix bi
  from nested_parse[of bi] obtain v nm tags where
    "parse_obj bi Schema nested_doc = ([], Inr v)"
    "getattr v ''properties'' = Some (VDict [(''name'', nm), (''tags'', tags)])"
    "getattr tags ''items'' = Some (VDict [(''type'', VStr ''string'')])"
    by blast
  then show "\<exists>v props tags items.
     parse_obj bi Schema nested_doc = ([], Inr v)
     \<and> getattr v ''properties'' = Some (VDict props)
     \<and> map_of props ''tags'' = Some tags
     \<and> getattr tags ''items'' = Some items
     \<and> getattr items ''type'' = None"
    by (intro exI[of _ v] exI[of _ "[(''name'', nm), (''tags'', tags)]"] exI[of _ tags]
        exI[of _ "VDict [(''type'', VStr ''string'')]"]) simp
qed

subsection \<open>Entities after construction\<close>

lemma module_names_ok:
  "names_ok ExternalDocumentation" "names_ok Contact" "names_ok License" "names_ok Info"
  "names_ok ServerVariable" "names_ok ServerProtocol" "names_ok Server" "names_ok Reference"
  "names_ok Discriminator" "names_ok SchemaBase" "names_ok Schema" "names_ok Parameter"
  "names_ok Tag" "names_ok Components" "names_ok CorrelationID" "names_ok MessageBase"
  "names_ok Message" "names_ok OperationTrait" "names_ok OperationBase" "names_ok Operation"
  "names_ok ChannelItem" "names_ok AsyncAPI"
proof -
  note d = names_ok_def is_valid_field_name_def BaseModel_properties_def
  show "names_ok ExternalDocumentation" by (simp add: d ExternalDocumentation_def)
  show "names_ok Contact" by (simp add: d Contact_def)
  show "names_ok License" by (simp add: d License_def)
  show "names_ok Info" by (simp add: d Info_def)
  show "names_ok ServerVariable" by (simp add: d ServerVariable_def)
  show "names_ok ServerProtocol" by (simp add: d ServerProtocol_def)
  show "names_ok Server" by (simp add: d Server_def)
  show "names_ok Reference" by (simp add: d Reference_def)
  show "names_ok Discriminator" by (simp add: d Discriminator_def)
  show "names_ok SchemaBase" by (simp add: d SchemaBase_fields)
  show "names_ok Schema" by (simp add: d Schema_fields)
  show "names_ok Parameter" by (simp add: d Parameter_def)
  show "names_ok Tag" by (simp add: d Tag_def)
  show "names_ok Components" by (simp add: d Components_def)
  show "names_ok CorrelationID" by (simp add: d CorrelationID_def)
  show "names_ok MessageBase" by (simp add: d MessageBase_def)
  show "names_ok Message" by (simp add: d Message_def inherit_def MessageBase_def)
  show "names_ok OperationTrait" by (simp add: d OperationTrait_def)
  show "names_ok OperationBase" by (simp add: d OperationBase_def)
  show "names_ok Operation" by (simp add: d Operation_def inherit_def OperationBase_def)
  show "names_ok ChannelItem" by (simp add: d ChannelItem_def)
  show "names_ok AsyncAPI" by (simp add: d AsyncAPI_def)
qed

lemma models_py_names_ok: "t \<in> set models_py \<Longrightarrow> names_ok t"
  unfolding models_py_def using module_names_ok by auto

lemma map_of_update_same:
  "name \<in> set (map fst fvs) \<Longrightarrow>
   map_option snd (map_of (map (\<lambda>(n, a, v). if n = name then (n, a, x) else (n, a, v)) fvs) name)
     = Some x"
  by (induction fvs) auto

lemma map_of_update_other:
  "n' \<noteq> name \<Longrightarrow>
   map_of (map (\<lambda>(n, a, v). if n = name then (n, a, x) else (n, a, v)) fvs) n' = map_of fvs n'"
  by (induction fvs) auto

lemma store_same:
  "map_option snd (map_of (store fvs name x) name) = Some x"
proof (cases "name \<in> set (map fst fvs)")
  case True
  then show ?thesis by (simp only: store_def if_True map_of_update_same)
next
  case False
  then have "map_of fvs name = None" by (simp add: map_of_eq_None_iff)
  with False show ?thesis by (simp add: store_def map_add_def)
qed

lemma store_other:
  assumes "n \<noteq> name"
  shows "map_of (store fvs name x) n = map_of fvs n"
proof (cases "name \<in> set (map fst fvs)")
  case True
  then show ?thesis using map_of_update_other[OF assms, of x fvs] by (simp add: store_def)
next
  case False
  then show ?thesis using assms by (simp add: store_def map_add_def split: option.splits)
qed

lemma parsed_instance:
  assumes "parse_obj bi (TModel cls flds) d = (w, Inr m)"
  shows "\<exists>fvs. m = VModel cls fvs \<and> map fst fvs = map fld_name flds"
proof -
  from assms obtain kvs where kvs: "dict_validator bi d = Inr kvs"
    by (cases "dict_validator bi d") (auto simp: parse_obj_def validate_TModel_any fail_def)
  with assms obtain vs where c: "collect (map (validate_field bi kvs) flds) = (w, Inr vs)"
    and m: "m = construct cls flds vs"
    by (auto simp: parse_obj_def validate_TModel_any map_res_Inr)
  from c have "length vs = length flds" by (auto simp: collect_Inr)
  then have "map fst (zip (map fld_name flds) (zip (map fld_alias flds) vs)) = map fld_name flds"
    by simp
  with m show ?thesis by (simp add: construct_def)
qed

text \<open>
  C8, as amended. An entity is validated when it is constructed and is not frozen
  afterwards. When the module imports, for every instance that a class of the module has
  parsed and every field that the class declares, assigning a value to the attribute of
  that field succeeds: the field then holds the assigned value, whatever it is, and every
  other attribute is as it was.
\<close>

theorem setattr_replaces_field:
  assumes "import_models bi = Inr classes"
    and "TModel cls flds \<in> set classes"
    and "parse_obj bi (TModel cls flds) d = (w, Inr m)"
    and "f \<in> set flds"
  shows "\<exists>m'. setattr bi (TModel cls flds) m (fld_name f) x = Stored m'
           \<and> getattr m' (fld_name f) = Some x
           \<and> (\<forall>n. n \<noteq> fld_name f \<longrightarrow> getattr m' n = getattr m n)"
proof -
  from assms(1) have p: "pydantic bi = Pydantic2" and cl: "classes = models_py"
    by (rule import_models_ok)+
  from assms(2) cl have "names_ok (TModel cls flds)" by (simp add: models_py_names_ok)
  with assms(4) have n: "is_valid_field_name (fld_name f)"
    "fld_name f \<notin> set BaseModel_properties"
    by (auto simp: names_ok_def list_all_iff)
  from parsed_instance[OF assms(3)] obtain fvs where m: "m = VModel cls fvs" by blast
  have "setattr bi (TModel cls flds) m (fld_name f) x
      = Stored (VModel cls (store fvs (fld_name f) x))"
    using p n assms(4) by (simp add: m config_of_def BaseConfig_def)
  then show ?thesis by (simp add: m store_same store_other)
qed

theorem setattr_replaces_field_witness:
  "import_models pydantic2_env = Inr models_py
   \<and> Reference \<in> set models_py
   \<and> parse_obj pydantic2_env Reference (JDict [(''$ref'', JStr ''#/a'')])
       = ([], Inr (VModel ''Reference'' [(''ref'', ''$ref'', VStr ''#/a'')]))
   \<and> setattr pydantic2_env Reference (VModel ''Reference'' [(''ref'', ''$ref'', VStr ''#/a'')])
         ''ref'' (VStr ''#/b'')
       = Stored (VModel ''Reference'' [(''ref'', ''$ref'', VStr ''#/b'')])"
proof -
  have i: "import_models pydantic2_env = Inr models_py"
    using import_models_Pydantic2[of pydantic2_env] by (simp add: pydantic2_env_def)
  have r: "Reference = TModel ''Reference'' [Fld ''ref'' TStr Ellipsis [(''alias'', KStr ''$ref'')]]"
    by (simp add: Reference_def)
  have c: "TModel ''Reference'' [Fld ''ref'' TStr Ellipsis [(''alias'', KStr ''$ref'')]] \<in> set models_py"
    unfolding r[symmetric] by (simp add: models_py_def)
  have p: "parse_obj pydantic2_env (TModel ''Reference'' [Fld ''ref'' TStr Ellipsis [(''alias'', KStr ''$ref'')]])
      (JDict [(''$ref'', JStr ''#/a'')]) = ([], Inr (VModel ''Reference'' [(''ref'', ''$ref'', VStr ''#/a'')]))"
    by (simp add: parse_obj_def str_validator_def res_defs model_defs)
  from setattr_replaces_field[OF i c p, of "Fld ''ref'' TStr Ellipsis [(''alias'', KStr ''$ref'')]" "VStr ''#/b''"]
  have "setattr pydantic2_env Reference (VModel ''Reference'' [(''ref'', ''$ref'', VStr ''#/a'')])
         ''ref'' (VStr ''#/b'')
       = Stored (VModel ''Reference'' [(''ref'', ''$ref'', VStr ''#/b'')])"
    by (auto simp: r pydantic2_env_def config_of_def BaseConfig_def is_valid_field_name_def
        BaseModel_properties_def store_def)
  with i c p show ?thesis by (simp add: r)
qed

text \<open>
  C8, as stated, fails: after a \<^verbatim>\<open>Reference\<close> is parsed, an assignment changes its
  \<^verbatim>\<open>ref\<close>.
\<close>

theorem entity_mutable_counterexample:
  "\<forall>bi. \<exists>m m'.
     import_models (bi\<lparr>pydantic := Pydantic2\<rparr>) = Inr models_py
     \<and> parse_obj (bi\<lparr>pydantic := Pydantic2\<rparr>) Reference (JDict [(''$ref'', JStr ''#/a'')]) = ([], Inr m)
     \<and> getattr m ''ref'' = Some (VStr ''#/a'')
     \<and> setattr (bi\<lparr>pydantic := Pydantic2\<rparr>) Reference m ''ref'' (VStr ''#/b'') = Stored m'
     \<and> getattr m' ''ref'' = Some (VStr ''#/b'')"
  by (simp add: import_models_Pydantic2 parse_obj_def Reference_def str_validator_def res_defs
      model_defs config_of_def BaseConfig_def is_valid_field_name_def BaseModel_properties_def
      store_def)

subsection \<open>What serialization leaves out\<close>

lemma zip3_map:
  "zip (map f xs) (zip (map g xs) (map h xs)) = map (\<lambda>x. (f x, g x, h x)) xs"
  by (induction xs) auto

lemma validate_TModel_ok:
  assumes "validate bi (TModel cls flds) (JDict kvs) = (w, Inr m)"
  shows "m = VModel cls (map (\<lambda>f. (fld_name f, fld_alias f, field_value bi kvs f)) flds)"
    and "\<forall>f \<in> set flds. succeeded (validate_field bi kvs f)"
    and "w = concat (map (fst \<circ> validate_field bi kvs) flds)"
proof -
  from assms obtain vs where c: "collect (map (validate_field bi kvs) flds) = (w, Inr vs)"
    and m: "m = construct cls flds vs"
    by (auto simp: validate_TModel map_res_Inr)
  from c have vs: "vs = map (field_value bi kvs) flds"
    and s: "list_all succeeded (map (validate_field bi kvs) flds)"
    and w: "w = concat (map (fst \<circ> validate_field bi kvs) flds)"
    by (auto simp: collect_Inr field_value_def comp_def)
  show "m = VModel cls (map (\<lambda>f. (fld_name f, fld_alias f, field_value bi kvs f)) flds)"
    by (simp add: m vs construct_def zip3_map)
  show "\<forall>f \<in> set flds. succeeded (validate_field bi kvs f)"
    using s by (simp add: list_all_iff)
  show "w = concat (map (fst \<circ> validate_field bi kvs) flds)" by (rule w)
qed

lemma absent_field_value:
  assumes "map_of kvs (fld_alias f) = None" and "succeeded (validate_field bi kvs f)"
  shows "field_value bi kvs f = VNone"
  using assms
  by (auto simp: validate_field_def field_value_def succeeded_def at_def fail_def ok_def
      split: if_splits)

lemma serialize_JNull: "serialize v = JNull \<longleftrightarrow> v = VNone"
  by (cases v) auto

text \<open>
  C5. Whatever the class: a key that the raw document does not hold is not a key of the
  serialized instance, so an absent optional field is left out. The serialization of an
  instance is a mapping that holds no null: its entries are exactly those of the fields whose
  value is not \<^verbatim>\<open>None\<close>, each under the external name, and a field that holds an
  enumeration member is emitted as the string that is the member's value.
\<close>

theorem serialize_omits_absent:
  "(\<forall>w m a. parse_obj bi (TModel cls flds) (JDict kvs) = (w, Inr m) \<and> map_of kvs a = None
        \<longrightarrow> jget (serialize m) a = None)
   \<and> (\<exists>out. serialize (VModel cls fvs) = JDict out
        \<and> (\<forall>k. (k, JNull) \<notin> set out)
        \<and> (\<forall>n a v. (n, a, v) \<in> set fvs \<and> v \<noteq> VNone \<longrightarrow> (a, serialize v) \<in> set out)
        \<and> (\<forall>a j. (a, j) \<in> set out \<longrightarrow> (\<exists>n v. (n, a, v) \<in> set fvs \<and> v \<noteq> VNone \<and> j = serialize v))
        \<and> (\<forall>n a c member s. (n, a, VEnum c member s) \<in> set fvs \<longrightarrow> (a, JStr s) \<in> set out))"
proof (intro conjI allI impI)
  fix w m a
  assume a: "parse_obj bi (TModel cls flds) (JDict kvs) = (w, Inr m) \<and> map_of kvs a = None"
  then have p: "validate bi (TModel cls flds) (JDict kvs) = (w, Inr m)"
    by (simp add: parse_obj_def)
  note ok = validate_TModel_ok[OF p]
  have "a \<notin> fst ` set (map (\<lambda>(name, alias, v). (alias, serialize v))
      (filter (\<lambda>(name, alias, v). v \<noteq> VNone)
         (map (\<lambda>f. (fld_name f, fld_alias f, field_value bi kvs f)) flds)))"
  proof
    assume "a \<in> fst ` set (map (\<lambda>(name, alias, v). (alias, serialize v))
      (filter (\<lambda>(name, alias, v). v \<noteq> VNone)
         (map (\<lambda>f. (fld_name f, fld_alias f, field_value bi kvs f)) flds)))"
    then obtain f where f: "f \<in> set flds" "fld_alias f = a" "field_value bi kvs f \<noteq> VNone"
      by auto
    with a ok(2) absent_field_value[of kvs f bi] show False by auto
  qed
  then show "jget (serialize m) a = None"
    by (simp add: ok(1) map_of_eq_None_iff)
next
  let ?out = "map (\<lambda>(name, alias, v). (alias, serialize v))
                   (filter (\<lambda>(name, alias, v). v \<noteq> VNone) fvs)"
  have 1: "serialize (VModel cls fvs) = JDict ?out" by simp
  have 2: "\<forall>k. (k, JNull) \<notin> set ?out" by (auto simp: serialize_JNull eq_commute[of JNull])
  have 3: "\<forall>n a v. (n, a, v) \<in> set fvs \<and> v \<noteq> VNone \<longrightarrow> (a, serialize v) \<in> set ?out"
    by force
  have 4: "\<forall>a j. (a, j) \<in> set ?out \<longrightarrow>
             (\<exists>n v. (n, a, v) \<in> set fvs \<and> v \<noteq> VNone \<and> j = serialize v)"
    by auto
  have 5: "\<forall>n a c member s. (n, a, VEnum c member s) \<in> set fvs \<longrightarrow> (a, JStr s) \<in> set ?out"
    by force
  from 1 2 3 4 5
  show "\<exists>out. serialize (VModel cls fvs) = JDict out
        \<and> (\<forall>k. (k, JNull) \<notin> set out)
        \<and> (\<forall>n a v. (n, a, v) \<in> set fvs \<and> v \<noteq> VNone \<longrightarrow> (a, serialize v) \<in> set out)
        \<and> (\<forall>a j. (a, j) \<in> set out \<longrightarrow> (\<exists>n v. (n, a, v) \<in> set fvs \<and> v \<noteq> VNone \<and> j = serialize v))
        \<and> (\<forall>n a c member s. (n, a, VEnum c member s) \<in> set fvs \<longrightarrow> (a, JStr s) \<in> set out)"
    by blast
qed

theorem serialize_omits_absent_witness:
  "(\<forall>bi. parse_obj bi Contact (JDict [(''name'', JStr ''Ada'')])
       = ([], Inr (VModel ''Contact''
            [(''name'', ''name'', VStr ''Ada''), (''url'', ''url'', VNone),
             (''email'', ''email'', VNone)])))
   \<and> map_of [(''name'', JStr ''Ada'')] ''email'' = None
   \<and> jget (serialize (VModel ''Contact''
            [(''name'', ''name'', VStr ''Ada''), (''url'', ''url'', VNone),
             (''email'', ''email'', VNone)])) ''email'' = None
   \<and> serialize (VModel ''Contact''
            [(''name'', ''name'', VStr ''Ada''), (''url'', ''url'', VNone),
             (''email'', ''email'', VNone)]) = JDict [(''name'', JStr ''Ada'')]
   \<and> jget (serialize (VModel ''Server''
            [(''url'', ''url'', VStr ''amqp://broker''),
             (''protocol'', ''protocol'', VEnum ''ServerProtocol'' ''kafka_secure'' ''kafka-secure'')]))
        ''protocol'' = Some (JStr ''kafka-secure'')"
proof -
  have p: "parse_obj bi Contact (JDict [(''name'', JStr ''Ada'')])
       = ([], Inr (VModel ''Contact''
            [(''name'', ''name'', VStr ''Ada''), (''url'', ''url'', VNone),
             (''email'', ''email'', VNone)]))" for bi
    by (simp add: parse_obj_def Contact_def res_defs model_defs str_validator_def)
  have "jget (serialize (VModel ''Contact''
            [(''name'', ''name'', VStr ''Ada''), (''url'', ''url'', VNone),
             (''email'', ''email'', VNone)])) ''email'' = None"
    using serialize_omits_absent
      [of pydantic2_env "''Contact''" "fields_of Contact" "[(''name'', JStr ''Ada'')]"]
      p[of pydantic2_env]
    by (simp add: Contact_def)
  then show ?thesis using p by simp
qed

subsection \<open>Round trips\<close>



















lemma serialize_JInt: "serialize u = JInt n \<longleftrightarrow> u = VInt n"
  by (cases u) auto








lemma int_for_float_round_trips:
  assumes "py_float bi (JInt n) = Some f" and "float_is bi f n"
  shows "exact bi TFloat (JInt n)"
    and "validate bi TFloat (JInt n) = ([], Inr (VFloat f))"
    and "same_doc bi (serialize (VFloat f)) (JInt n)"
  using assms by (simp_all add: res_defs float_validator_def)





end
